theory Spec2Isabelle
  imports Main "HOL-Library.AList"
begin

section \<open>Values, exceptions and generators\<close>

text \<open>
  The exceptions the dispatch engine (\<^verbatim>\<open>nmmd/base.py\<close>, \<^verbatim>\<open>nmmd/ext/regex.py\<close>,
  \<^verbatim>\<open>hercules/dict.py\<close>) raises itself or lets through from the Python runtime and from
  handlers. \<open>OtherError\<close> is any other exception, by the name of its class, that passes
  through a generator body as it is. StopIteration is not one of them and is left out of
  the model: raised by a handler inside the generator body of \<^verbatim>\<open>gen_dispatch\<close> it
  reaches the consumer as RuntimeError, or as the end of the generator, depending on the
  interpreter (PEP 479).
\<close>

datatype exn =
    DispatchError | DispatchInterrupt | ImplementationError | KeyClobberError
  | AttributeError | TypeError | IndexError | RuntimeError | OtherError string

text \<open>
  A computation of the engine stops early either because an exception is raised or
  because \<^verbatim>\<open>try_delegation\<close> handed the call to the owner's method of the same name
  (\<open>Owner name\<close>): that method is user code outside the engine, and the model says
  nothing about what it does. The one exception is \<^verbatim>\<open>prepare\<close>, whose result the engine
  stores: what the owner's own \<^verbatim>\<open>prepare\<close> returns is a parameter of the runtime.
\<close>

datatype stop = Raise exn | Owner string

datatype pyval =
    VNone | VInt int | VStr string | VList "pyval list"
  | VPattern string | VMatch string string

type_synonym kwargs = "(string \<times> pyval) list"

text \<open>
  A generator object, as the trace it produces when it is consumed: the values it yields,
  in order, and how it ends after the last of them (\<open>None\<close>: it returns, the consumer sees
  StopIteration; \<open>Some s\<close>: the body stops with \<open>s\<close>). Calling a generator function runs
  none of its body; the body runs as the consumer asks for values.
\<close>

datatype 'a gen = Gen (yields: "'a list") (ending: "stop option")

definition gen_cons :: "'a \<Rightarrow> 'a gen \<Rightarrow> 'a gen" where
  "gen_cons x g = Gen (x # yields g) (ending g)"

text \<open>\<^verbatim>\<open>yield from g\<close> followed by the rest of the body.\<close>

definition yield_from :: "'a gen \<Rightarrow> 'a gen \<Rightarrow> 'a gen" where
  "yield_from g rest =
     (case ending g of
        None \<Rightarrow> Gen (yields g @ yields rest) (ending rest)
      | Some s \<Rightarrow> g)"

text \<open>Iterating over what a call returned: a call that stopped has nothing to iterate.\<close>

definition iterate :: "stop + 'a gen \<Rightarrow> 'a gen" where
  "iterate r = (case r of Inl s \<Rightarrow> Gen [] (Some s) | Inr g \<Rightarrow> g)"

text \<open>The first \<^verbatim>\<open>next()\<close> of a generator: a value, or the way the body ended.\<close>

definition first_next :: "'a gen \<Rightarrow> stop option + 'a" where
  "first_next g = (case yields g of x # _ \<Rightarrow> Inr x | [] \<Rightarrow> Inl (ending g))"

definition lift :: "exn + 'a \<Rightarrow> stop + 'a" where
  "lift r = (case r of Inl e \<Rightarrow> Inl (Raise e) | Inr v \<Rightarrow> Inr v)"

section \<open>The Python runtime the engine runs in\<close>

text \<open>
  What the engine takes from outside the repository: the behaviour of the handlers it
  calls, what the owner's \<^verbatim>\<open>prepare\<close> returns when the owner has one, the \<^verbatim>\<open>re\<close>
  module, the type of a token with its method resolution order, \<^verbatim>\<open>isinstance\<close>, the
  namespaces \<^verbatim>\<open>__builtins__\<close>, \<^verbatim>\<open>types\<close> and \<^verbatim>\<open>collections\<close>,
  and the order in which the two catalogue sets are iterated (a Python set of strings has
  no fixed iteration order).
\<close>

datatype pyobj = PyClass string | NotAClass

text \<open>
  What \<^verbatim>\<open>prepare\<close> returns: \<^verbatim>\<open>Dispatcher.prepare\<close> returns the registry list itself,
  \<^verbatim>\<open>RegexDispatcher.prepare\<close> a new list of compiled patterns.
\<close>

datatype prepared = TheRegistry | Compiled "(pyval \<times> string) list"

record 'h runtime =
  call :: "'h \<Rightarrow> pyval list \<Rightarrow> kwargs \<Rightarrow> exn + pyval"
  owner_prepare :: "exn + prepared"
  re_compile :: "pyval list \<Rightarrow> kwargs \<Rightarrow> exn + pyval"
  re_match :: "pyval \<Rightarrow> pyval \<Rightarrow> exn + pyval option"
  type_mro :: "pyval \<Rightarrow> string \<times> string list"
  isinstance :: "pyval \<Rightarrow> string \<Rightarrow> bool"
  builtins :: "string \<rightharpoonup> pyobj"
  types_module :: "string \<rightharpoonup> pyobj"
  collections_module :: "string \<rightharpoonup> pyobj"
  interp_types_iter :: "string list"
  abc_types_iter :: "string list"

section \<open>hercules: NoClobberDict\<close>

text \<open>
  \<^verbatim>\<open>NoClobberDict.update(otherdict)\<close>: the keys present on both sides are the dupes; a dupe
  whose two values differ raises KeyClobberError; otherwise \<^verbatim>\<open>dict.update\<close> runs.
\<close>

definition dupes :: "kwargs \<Rightarrow> kwargs \<Rightarrow> string list" where
  "dupes self otherdict = filter (\<lambda>k. k \<in> fst ` set self) (map fst otherdict)"

definition dict_update :: "kwargs \<Rightarrow> kwargs \<Rightarrow> kwargs" where
  "dict_update self otherdict = fold (\<lambda>(k, v). AList.update k v) otherdict self"

definition NoClobberDict_update :: "kwargs \<Rightarrow> kwargs \<Rightarrow> exn + kwargs" where
  "NoClobberDict_update self otherdict =
     (if list_ex (\<lambda>dupe. map_of self dupe \<noteq> map_of otherdict dupe) (dupes self otherdict)
      then Inl KeyClobberError
      else Inr (dict_update self otherdict))"

section \<open>nmmd: the dispatcher object\<close>

text \<open>
  \<open>Tuple3 m args kwargs\<close> and \<open>Tuple2 m args\<close> are the tuples \<^verbatim>\<open>gen_methods\<close> yields,
  \<open>Bare m\<close> is a method yielded on its own.
\<close>

datatype 'h method_data =
    Bare 'h | Tuple2 'h "pyval list" | Tuple3 'h "pyval list" kwargs

text \<open>The class of the dispatcher: Dispatcher, TypeDispatcher or RegexDispatcher.\<close>

datatype dispatcher_class = Dispatcher | TypeDispatcher | RegexDispatcher

text \<open>
  A registry entry is \<^verbatim>\<open>(dumps((args, kwargs)), method.__name__)\<close>; \<^verbatim>\<open>loads\<close> gives the
  pair back, so the entry is kept unpickled. \<open>cached_dispatch_data\<close> is the instance
  attribute that \<^verbatim>\<open>CachedAttr\<close> sets; \<open>prepare_calls\<close> counts the calls of
  \<^verbatim>\<open>self.prepare()\<close> made by \<^verbatim>\<open>dispatch_data\<close> (a counter for the proofs, not a field
  of the source).
\<close>

record 'h dispatcher =
  cls :: dispatcher_class
  try_delegation :: bool
  delegator_prefix :: "string option"
  inst :: "(string \<rightharpoonup> 'h) option"
  registry :: "((pyval list \<times> kwargs) \<times> string) list"
  cached_dispatch_data :: "prepared option"
  method_prefix :: string
  prepare_calls :: nat

text \<open>\<^verbatim>\<open>getattr(inst, name, None)\<close>; the owner \<^verbatim>\<open>None\<close> has none of the names asked for.\<close>

definition getattr :: "(string \<rightharpoonup> 'h) option \<Rightarrow> string \<Rightarrow> 'h option" where
  "getattr ow name = (case ow of None \<Rightarrow> None | Some attrs \<Rightarrow> attrs name)"

text \<open>
  \<^verbatim>\<open>try_delegation\<close>: the wrapped method runs unless delegation is on, an owner is bound
  and the owner has an attribute named \<^verbatim>\<open>(delegator_prefix or '') + method.__name__\<close>.
\<close>

definition delegates :: "'h dispatcher \<Rightarrow> string \<Rightarrow> bool" where
  "delegates d name =
     (try_delegation d \<and>
      getattr (inst d) ((case delegator_prefix d of None \<Rightarrow> [] | Some p \<Rightarrow> p) @ name) \<noteq> None)"

definition delegator :: "string \<Rightarrow> 'h dispatcher \<Rightarrow> 'a \<Rightarrow> stop + 'a" where
  "delegator name d method = (if delegates d name then Inl (Owner name) else Inr method)"

definition join :: "stop + (stop + 'a) \<Rightarrow> stop + 'a" where
  "join r = (case r of Inl s \<Rightarrow> Inl s | Inr x \<Rightarrow> x)"

subsection \<open>register, prepare and the cached dispatch data\<close>

definition register ::
  "'h dispatcher \<Rightarrow> string \<Rightarrow> pyval list \<Rightarrow> kwargs \<Rightarrow> stop + 'h dispatcher" where
  "register d method_name args kwargs =
     delegator ''register'' d (d\<lparr>registry := registry d @ [((args, kwargs), method_name)]\<rparr>)"

fun compile_all ::
  "'h runtime \<Rightarrow> ((pyval list \<times> kwargs) \<times> string) list \<Rightarrow> exn + (pyval \<times> string) list" where
  "compile_all rt [] = Inr []"
| "compile_all rt (((args, kwargs), method) # rest) =
     (case re_compile rt args kwargs of
        Inl e \<Rightarrow> Inl e
      | Inr rgx \<Rightarrow>
          (case compile_all rt rest of
             Inl e \<Rightarrow> Inl e
           | Inr data \<Rightarrow> Inr ((rgx, method) # data)))"

text \<open>
  \<^verbatim>\<open>prepare\<close> is wrapped by \<^verbatim>\<open>try_delegation\<close> like the other operations: an owner that
  has a \<^verbatim>\<open>prepare\<close> of its own supplies the prepared data.
\<close>

definition prepare :: "'h runtime \<Rightarrow> 'h dispatcher \<Rightarrow> stop + prepared" where
  "prepare rt d =
     (if delegates d ''prepare'' then lift (owner_prepare rt)
      else case cls d of
             RegexDispatcher \<Rightarrow>
               (case compile_all rt (registry d) of
                  Inl e \<Rightarrow> Inl (Raise e)
                | Inr data \<Rightarrow> Inr (Compiled data))
           | _ \<Rightarrow> Inr TheRegistry)"

text \<open>
  Reading \<^verbatim>\<open>self.dispatch_data\<close>. Once the instance attribute is set it is what the read
  finds. Otherwise \<^verbatim>\<open>CachedAttr.__get__\<close> runs \<^verbatim>\<open>BaseDispatcher.dispatch_data\<close>, which
  calls \<^verbatim>\<open>self.prepare()\<close> and turns a RuntimeError into ImplementationError, and sets
  the instance attribute only when that returned.
\<close>

definition dispatch_data ::
  "'h runtime \<Rightarrow> 'h dispatcher \<Rightarrow> (stop + prepared) \<times> 'h dispatcher" where
  "dispatch_data rt d =
     (case cached_dispatch_data d of
        Some result \<Rightarrow> (Inr result, d)
      | None \<Rightarrow>
          (let d1 = d\<lparr>prepare_calls := Suc (prepare_calls d)\<rparr> in
           case prepare rt d of
             Inl (Raise RuntimeError) \<Rightarrow> (Inl (Raise ImplementationError), d1)
           | Inl s \<Rightarrow> (Inl s, d1)
           | Inr result \<Rightarrow> (Inr result, d1\<lparr>cached_dispatch_data := Some result\<rparr>)))"

text \<open>\<^verbatim>\<open>del dispatcher.dispatch_data\<close>: the owner throws the cached value away.\<close>

definition invalidate :: "'h dispatcher \<Rightarrow> 'h dispatcher" where
  "invalidate d = d\<lparr>cached_dispatch_data := None\<rparr>"

subsection \<open>Dispatcher.gen_methods: every registration is replayed\<close>

text \<open>
  The loop over the registry yields \<^verbatim>\<open>(getattr(self.inst, methodname), args, kwargs)\<close> with
  the recorded arguments; \<^verbatim>\<open>getattr\<close> has no default here, so a missing method raises
  AttributeError.
\<close>

fun replay ::
  "(string \<rightharpoonup> 'h) option \<Rightarrow> ((pyval list \<times> kwargs) \<times> string) list \<Rightarrow> 'h method_data gen" where
  "replay ow [] = Gen [] None"
| "replay ow (((args, kwargs), methodname) # rest) =
     (case getattr ow methodname of
        None \<Rightarrow> Gen [] (Some (Raise AttributeError))
      | Some m \<Rightarrow> gen_cons (Tuple3 m args kwargs) (replay ow rest))"

text \<open>
  \<^verbatim>\<open>dispatched\<close> is set once the loop has yielded; then the generator returns. With an
  empty registry the generic handler is yielded, if the owner has one, with the arguments of
  the call, and the body goes on to \<^verbatim>\<open>raise self.DispatchError\<close>.
\<close>

definition Dispatcher_gen_methods ::
  "'h dispatcher \<Rightarrow> pyval list \<Rightarrow> kwargs \<Rightarrow> 'h method_data gen" where
  "Dispatcher_gen_methods d args kwargs =
     (let loop = replay (inst d) (registry d);
          dispatched = (yields loop \<noteq> [])
      in if ending loop \<noteq> None \<or> dispatched then loop
         else yield_from
                (case getattr (inst d) ''generic_handler'' of
                   None \<Rightarrow> Gen [] None
                 | Some generic_handler \<Rightarrow> Gen [Tuple3 generic_handler args kwargs] None)
                (Gen [] (Some (Raise DispatchError))))"

subsection \<open>TypeDispatcher.gen_methods: the walk over the token's types\<close>

definition abc_types :: "string set" where
  "abc_types = set [''Hashable'', ''Iterable'', ''Iterator'', ''Sized'', ''Container'',
     ''Callable'', ''Set'', ''MutableSet'', ''Mapping'', ''MutableMapping'', ''MappingView'',
     ''KeysView'', ''ItemsView'', ''ValuesView'', ''Sequence'', ''MutableSequence'',
     ''ByteString'']"


definition generic_handler_aliases :: "string list" where
  "generic_handler_aliases = [''handle_anything'', ''generic_handler'', ''generic_handle'']"


fun dedupe_loop :: "'a set \<Rightarrow> 'a list \<Rightarrow> 'a list" where
  "dedupe_loop seen [] = []"
| "dedupe_loop seen (result # rest) =
     (if result \<in> seen then dedupe_loop seen rest
      else result # dedupe_loop (insert result seen) rest)"

definition dedupe :: "'a gen \<Rightarrow> 'a gen" where
  "dedupe g = Gen (dedupe_loop {} (yields g)) (ending g)"

text \<open>
  \<^verbatim>\<open>type(token).__mro__[:-1]\<close>, by name: the type of the token first, the root type
  (the last entry) left out.
\<close>

definition gen_method_keys ::
  "'h runtime \<Rightarrow> 'h dispatcher \<Rightarrow> pyval list \<Rightarrow> kwargs \<Rightarrow> stop + string gen" where
  "gen_method_keys rt d args kwargs =
     delegator ''gen_method_keys'' d
       (case args of
          [] \<Rightarrow> Gen [] (Some (Raise IndexError))
        | token # _ \<Rightarrow>
            (case type_mro rt token of (name, ancestors) \<Rightarrow> Gen (butlast (name # ancestors)) None))"

text \<open>The owner's methods named prefix + name, for the names given, in their order.\<close>

definition methods_named :: "'h dispatcher \<Rightarrow> string list \<Rightarrow> 'h method_data list" where
  "methods_named d names =
     map Bare (List.map_filter (\<lambda>name. getattr (inst d) (method_prefix d @ name)) names)"

definition check_basetype ::
  "'h runtime \<Rightarrow> 'h dispatcher \<Rightarrow> pyval \<Rightarrow> string \<Rightarrow> pyobj option \<Rightarrow> stop + 'h method_data gen" where
  "check_basetype rt d token basetype_name basetype =
     delegator ''check_basetype'' d
       (case basetype of
          None \<Rightarrow> Gen [] None
        | Some NotAClass \<Rightarrow> Gen [] (Some (Raise TypeError))
        | Some (PyClass name) \<Rightarrow>
            if \<not> isinstance rt token name then Gen [] None
            else Gen (methods_named d [basetype_name, name]) None)"

fun check_each ::
  "'h runtime \<Rightarrow> 'h dispatcher \<Rightarrow> pyval \<Rightarrow> (string \<rightharpoonup> pyobj) \<Rightarrow> string list \<Rightarrow> 'h method_data gen" where
  "check_each rt d token namespace [] = Gen [] None"
| "check_each rt d token namespace (basetype_name # rest) =
     yield_from (iterate (check_basetype rt d token basetype_name (namespace basetype_name)))
       (check_each rt d token namespace rest)"

definition gen_generic :: "'h dispatcher \<Rightarrow> stop + 'h method_data gen" where
  "gen_generic d =
     delegator ''gen_generic'' d
       (Gen (map Bare (List.map_filter (getattr (inst d)) generic_handler_aliases)) None)"

text \<open>The methods found for the keys of \<^verbatim>\<open>gen_method_keys\<close>: the first loop of the body.\<close>

definition key_methods ::
  "'h runtime \<Rightarrow> 'h dispatcher \<Rightarrow> pyval list \<Rightarrow> kwargs \<Rightarrow> 'h method_data gen" where
  "key_methods rt d args kwargs =
     (let keys = iterate (gen_method_keys rt d args kwargs)
      in Gen (methods_named d (yields keys)) (ending keys))"

definition TypeDispatcher_gen_methods ::
  "'h runtime \<Rightarrow> 'h dispatcher \<Rightarrow> pyval list \<Rightarrow> kwargs \<Rightarrow> 'h method_data gen" where
  "TypeDispatcher_gen_methods rt d args kwargs =
     (case args of
        [] \<Rightarrow> Gen [] (Some (Raise IndexError))
      | token # _ \<Rightarrow>
          (let typename = fst (type_mro rt token)
           in yield_from (key_methods rt d args kwargs)
             (yield_from (iterate (check_basetype rt d token typename (builtins rt typename)))
             (yield_from (check_each rt d token (types_module rt) (interp_types_iter rt))
             (yield_from (check_each rt d token (collections_module rt) (abc_types_iter rt))
               (iterate (gen_generic d)))))))"

subsection \<open>RegexDispatcher.gen_methods: the patterns in registration order\<close>

text \<open>
  \<^verbatim>\<open>get_text(self, text)\<close> called with the arguments of the dispatch call: it takes the
  one argument \<^verbatim>\<open>text\<close>, by position or by name, and any other call is a TypeError.
\<close>

definition get_text :: "'h dispatcher \<Rightarrow> pyval list \<Rightarrow> kwargs \<Rightarrow> stop + pyval" where
  "get_text d args kwargs =
     join (delegator ''get_text'' d
       (case (args, kwargs) of
          ([text], []) \<Rightarrow> Inr text
        | ([], [(name, text)]) \<Rightarrow> if name = ''text'' then Inr text else Inl (Raise TypeError)
        | _ \<Rightarrow> Inl (Raise TypeError)))"

fun match_each ::
  "'h runtime \<Rightarrow> (string \<rightharpoonup> 'h) option \<Rightarrow> pyval \<Rightarrow> (pyval \<times> string) list \<Rightarrow> 'h method_data gen" where
  "match_each rt ow text [] = Gen [] None"
| "match_each rt ow text ((rgx, methodname) # rest) =
     (case re_match rt rgx text of
        Inl e \<Rightarrow> Gen [] (Some (Raise e))
      | Inr None \<Rightarrow> match_each rt ow text rest
      | Inr (Some matchobj) \<Rightarrow>
          (case getattr ow methodname of
             None \<Rightarrow> Gen [] (Some (Raise AttributeError))
           | Some m \<Rightarrow> gen_cons (Tuple2 m [text, matchobj]) (match_each rt ow text rest)))"

text \<open>
  After the loop the body yields the generic handler whenever the owner has one; there is
  no test of whether the loop yielded.
\<close>

definition try_generic :: "'h dispatcher \<Rightarrow> 'h method_data gen" where
  "try_generic d =
     (case getattr (inst d) ''generic_handler'' of
        None \<Rightarrow> Gen [] None
      | Some generic \<Rightarrow> Gen [Bare generic] None)"

text \<open>
  The body reads \<^verbatim>\<open>self.dispatch_data\<close> before it yields anything, so the dispatcher
  returned is the one the consumer has after its first \<^verbatim>\<open>next()\<close>. A cached value that
  is the registry itself has pickled keys, which have no \<^verbatim>\<open>match\<close>.
\<close>

definition RegexDispatcher_gen_methods ::
  "'h runtime \<Rightarrow> 'h dispatcher \<Rightarrow> pyval list \<Rightarrow> kwargs \<Rightarrow> 'h method_data gen \<times> 'h dispatcher" where
  "RegexDispatcher_gen_methods rt d args kwargs =
     (case get_text d args kwargs of
        Inl s \<Rightarrow> (Gen [] (Some s), d)
      | Inr text \<Rightarrow>
          (case dispatch_data rt d of
             (Inl s, d') \<Rightarrow> (Gen [] (Some s), d')
           | (Inr TheRegistry, d') \<Rightarrow>
               (if registry d' = [] then try_generic d' else Gen [] (Some (Raise AttributeError)), d')
           | (Inr (Compiled data), d') \<Rightarrow>
               (yield_from (match_each rt (inst d') text data) (try_generic d'), d')))"

subsection \<open>The operations of the dispatch call interface\<close>

definition gen_methods ::
  "'h runtime \<Rightarrow> 'h dispatcher \<Rightarrow> pyval list \<Rightarrow> kwargs \<Rightarrow>
     stop + ('h method_data gen \<times> 'h dispatcher)" where
  "gen_methods rt d args kwargs =
     delegator ''gen_methods'' d
       (case cls d of
          Dispatcher \<Rightarrow> (Dispatcher_gen_methods d args kwargs, d)
        | TypeDispatcher \<Rightarrow> (dedupe (TypeDispatcher_gen_methods rt d args kwargs), d)
        | RegexDispatcher \<Rightarrow> RegexDispatcher_gen_methods rt d args kwargs)"

text \<open>
  \<^verbatim>\<open>get_method\<close> returns at the first candidate; when the generator ends without one it
  raises DispatchError, unless the generator itself stopped otherwise.
\<close>

definition get_method ::
  "'h runtime \<Rightarrow> 'h dispatcher \<Rightarrow> pyval list \<Rightarrow> kwargs \<Rightarrow>
     (stop + 'h method_data) \<times> 'h dispatcher" where
  "get_method rt d args kwargs =
     (if delegates d ''get_method'' then (Inl (Owner ''get_method''), d)
      else case gen_methods rt d args kwargs of
             Inl s \<Rightarrow> (Inl s, d)
           | Inr (methods, d') \<Rightarrow>
               (case yields methods of
                  method # _ \<Rightarrow> (Inr method, d')
                | [] \<Rightarrow>
                    (case ending methods of
                       None \<Rightarrow> (Inl (Raise DispatchError), d')
                     | Some s \<Rightarrow> (Inl s, d'))))"

text \<open>
  \<^verbatim>\<open>Dispatcher.apply_handler\<close>: the call's keyword arguments go into a NoClobberDict, the
  recorded positional arguments are appended to the call's, the recorded keyword arguments
  are merged with \<^verbatim>\<open>update\<close>.
\<close>

definition Dispatcher_apply_handler ::
  "'h runtime \<Rightarrow> 'h method_data \<Rightarrow> pyval list \<Rightarrow> kwargs \<Rightarrow> exn + pyval" where
  "Dispatcher_apply_handler rt method_data args kwargs =
     (case method_data of
        Bare method \<Rightarrow> call rt method args kwargs
      | Tuple2 method margs \<Rightarrow> call rt method (args @ margs) kwargs
      | Tuple3 method margs mkwargs \<Rightarrow>
          (case NoClobberDict_update kwargs mkwargs of
             Inl e \<Rightarrow> Inl e
           | Inr kwargs' \<Rightarrow> call rt method (args @ margs) kwargs'))"

text \<open>\<^verbatim>\<open>RegexDispatcher.apply_handler\<close>: the arguments in the tuple replace the call's.\<close>

definition RegexDispatcher_apply_handler ::
  "'h runtime \<Rightarrow> 'h method_data \<Rightarrow> pyval list \<Rightarrow> kwargs \<Rightarrow> exn + pyval" where
  "RegexDispatcher_apply_handler rt method_data args kwargs =
     (case method_data of
        Bare method \<Rightarrow> call rt method args kwargs
      | Tuple2 method margs \<Rightarrow> call rt method margs kwargs
      | Tuple3 method margs mkwargs \<Rightarrow> call rt method margs mkwargs)"

definition apply_handler ::
  "'h runtime \<Rightarrow> 'h dispatcher \<Rightarrow> 'h method_data \<Rightarrow> pyval list \<Rightarrow> kwargs \<Rightarrow> stop + pyval" where
  "apply_handler rt d method_data args kwargs =
     join (delegator ''apply_handler'' d
       (lift (case cls d of
                RegexDispatcher \<Rightarrow> RegexDispatcher_apply_handler rt method_data args kwargs
              | _ \<Rightarrow> Dispatcher_apply_handler rt method_data args kwargs)))"

text \<open>
  The loop of \<^verbatim>\<open>gen_dispatch\<close>: each candidate is applied and its result yielded; an
  exception out of \<^verbatim>\<open>apply_handler\<close> ends the generator, as there is no \<^verbatim>\<open>try\<close> in the
  body. The exceptions of \<open>exn\<close> leave a generator body as they are; StopIteration, which
  does not, is not among them. \<open>after\<close> is how the body ends once the candidates are used
  up.
\<close>

fun apply_each ::
  "'h runtime \<Rightarrow> 'h dispatcher \<Rightarrow> pyval list \<Rightarrow> kwargs \<Rightarrow> 'h method_data list \<Rightarrow>
     stop option \<Rightarrow> pyval gen" where
  "apply_each rt d args kwargs [] after = Gen [] after"
| "apply_each rt d args kwargs (method_data # rest) after =
     (case apply_handler rt d method_data args kwargs of
        Inl s \<Rightarrow> Gen [] (Some s)
      | Inr result \<Rightarrow> gen_cons result (apply_each rt d args kwargs rest after))"

text \<open>
  \<^verbatim>\<open>gen_dispatch\<close> is a generator function: the call returns the generator object, and
  what is described here is its trace. When \<^verbatim>\<open>gen_methods\<close> ends normally the body
  returns if \<^verbatim>\<open>dispatched\<close> was set and raises DispatchError otherwise.
\<close>

definition gen_dispatch ::
  "'h runtime \<Rightarrow> 'h dispatcher \<Rightarrow> pyval list \<Rightarrow> kwargs \<Rightarrow> stop + (pyval gen \<times> 'h dispatcher)" where
  "gen_dispatch rt d args kwargs =
     delegator ''gen_dispatch'' d
       (case gen_methods rt d args kwargs of
          Inl s \<Rightarrow> (Gen [] (Some s), d)
        | Inr (methods, d') \<Rightarrow>
            (let dispatched = (yields methods \<noteq> [])
             in (apply_each rt d' args kwargs (yields methods)
                   (case ending methods of
                      Some s \<Rightarrow> Some s
                    | None \<Rightarrow> if dispatched then None else Some (Raise DispatchError)),
                 d')))"

text \<open>
  \<^verbatim>\<open>dispatch\<close> returns the first result of \<^verbatim>\<open>gen_dispatch\<close>; a generator that ends
  without a result makes the function fall off its end and return \<^verbatim>\<open>None\<close>.
\<close>

definition dispatch ::
  "'h runtime \<Rightarrow> 'h dispatcher \<Rightarrow> pyval list \<Rightarrow> kwargs \<Rightarrow> (stop + pyval) \<times> 'h dispatcher" where
  "dispatch rt d args kwargs =
     (if delegates d ''dispatch'' then (Inl (Owner ''dispatch''), d)
      else case gen_dispatch rt d args kwargs of
             Inl s \<Rightarrow> (Inl s, d)
           | Inr (results, d') \<Rightarrow>
               (case yields results of
                  result # _ \<Rightarrow> (Inr result, d')
                | [] \<Rightarrow>
                    (case ending results of
                       None \<Rightarrow> (Inr VNone, d')
                     | Some s \<Rightarrow> (Inl s, d'))))"

subsection \<open>Sequences of operations on one dispatcher\<close>

text \<open>
  What client code does with a dispatcher over time: single-mode dispatch calls, multi-mode
  calls whose result is consumed, registrations, and the owner deleting the cached
  attribute. An operation that stops leaves the dispatcher as it found it.
\<close>

datatype operation =
    DispatchCall "pyval list" kwargs
  | GenDispatchCall "pyval list" kwargs
  | RegisterCall string "pyval list" kwargs
  | DeleteCache

fun perform :: "'h runtime \<Rightarrow> 'h dispatcher \<Rightarrow> operation \<Rightarrow> 'h dispatcher" where
  "perform rt d (DispatchCall args kwargs) = snd (dispatch rt d args kwargs)"
| "perform rt d (GenDispatchCall args kwargs) =
     (case gen_dispatch rt d args kwargs of Inl s \<Rightarrow> d | Inr (results, d') \<Rightarrow> d')"
| "perform rt d (RegisterCall method_name args kwargs) =
     (case register d method_name args kwargs of Inl s \<Rightarrow> d | Inr d' \<Rightarrow> d')"
| "perform rt d DeleteCache = invalidate d"

definition perform_all :: "'h runtime \<Rightarrow> 'h dispatcher \<Rightarrow> operation list \<Rightarrow> 'h dispatcher" where
  "perform_all rt d ops = foldl (perform rt) d ops"

fun is_DeleteCache :: "operation \<Rightarrow> bool" where
  "is_DeleteCache DeleteCache = True"
| "is_DeleteCache _ = False"

text \<open>
  The candidate a registration stands for in a dispatch call, when it matches the call: a
  Dispatcher replays every registration, a RegexDispatcher takes the registrations whose
  compiled pattern matches the text of the call, and a TypeDispatcher does not look at
  the registry.
\<close>

definition candidate ::
  "'h runtime \<Rightarrow> 'h dispatcher \<Rightarrow> pyval list \<Rightarrow> kwargs \<Rightarrow>
     ((pyval list \<times> kwargs) \<times> string) \<Rightarrow> 'h method_data option" where
  "candidate rt d args kwargs entry =
     (case entry of ((margs, mkwargs), methodname) \<Rightarrow>
        (case getattr (inst d) methodname of
           None \<Rightarrow> None
         | Some m \<Rightarrow>
             (case cls d of
                Dispatcher \<Rightarrow> Some (Tuple3 m margs mkwargs)
              | TypeDispatcher \<Rightarrow> None
              | RegexDispatcher \<Rightarrow>
                  (case (get_text d args kwargs, re_compile rt margs mkwargs) of
                     (Inr text, Inr rgx) \<Rightarrow>
                       (case re_match rt rgx text of
                          Inr (Some matchobj) \<Rightarrow> Some (Tuple2 m [text, matchobj])
                        | _ \<Rightarrow> None)
                   | _ \<Rightarrow> None))))"

section \<open>A concrete runtime and concrete dispatchers\<close>

text \<open>
  A dispatcher as \<^verbatim>\<open>__init__\<close> leaves it (\<^verbatim>\<open>delegate=True, prefix=None\<close>), bound to an
  owner by \<^verbatim>\<open>__get__\<close>, with the class attribute \<^verbatim>\<open>method_prefix = 'handle_'\<close>.
\<close>

definition new_dispatcher :: "dispatcher_class \<Rightarrow> (string \<times> 'h) list \<Rightarrow> 'h dispatcher" where
  "new_dispatcher c attrs =
     \<lparr>cls = c, try_delegation = True, delegator_prefix = None, inst = Some (map_of attrs),
      registry = [], cached_dispatch_data = None, method_prefix = ''handle_'',
      prepare_calls = 0\<rparr>"

text \<open>
  Handlers that report what they were called with; the handler \<^verbatim>\<open>interrupt\<close> raises
  DispatchInterrupt instead.
\<close>

definition echo :: "string \<Rightarrow> pyval list \<Rightarrow> kwargs \<Rightarrow> exn + pyval" where
  "echo h args kwargs =
     (if h = ''interrupt'' then Inl DispatchInterrupt
      else Inr (VList [VStr h, VList args, VList (map (\<lambda>(k, v). VList [VStr k, v]) kwargs)]))"

text \<open>
  The \<^verbatim>\<open>re\<close> module on the patterns used below: an optional \<^verbatim>\<open>^\<close> followed by lower-case
  letters and digits, which \<^verbatim>\<open>match\<close> finds at the start of the text. \<^verbatim>\<open>re.compile\<close>
  gives a compiled pattern back as it is; without a pattern, or with one that is neither a
  string nor a compiled pattern, it is a TypeError. Other patterns are not covered and are
  refused.
\<close>

definition literal :: "string \<Rightarrow> string" where
  "literal p = (case p of [] \<Rightarrow> [] | c # cs \<Rightarrow> if c = CHR ''^'' then cs else p)"

definition py_re_compile :: "pyval list \<Rightarrow> kwargs \<Rightarrow> exn + pyval" where
  "py_re_compile args kwargs =
     (case (args, kwargs) of
        ([VStr p], []) \<Rightarrow>
          if list_all (\<lambda>c. c \<in> set ''abcdefghijklmnopqrstuvwxyz0123456789'') (literal p)
          then Inr (VPattern p) else Inl (OtherError ''pattern not covered'')
      | ([VPattern p], []) \<Rightarrow> Inr (VPattern p)
      | ([], []) \<Rightarrow> Inl TypeError
      | ([_], []) \<Rightarrow> Inl TypeError
      | _ \<Rightarrow> Inl (OtherError ''call not covered''))"

definition py_re_match :: "pyval \<Rightarrow> pyval \<Rightarrow> exn + pyval option" where
  "py_re_match rgx text =
     (case (rgx, text) of
        (VPattern p, VStr t) \<Rightarrow>
          if take (length (literal p)) t = literal p then Inr (Some (VMatch p (literal p)))
          else Inr None
      | (VPattern p, _) \<Rightarrow> Inl TypeError
      | _ \<Rightarrow> Inl AttributeError)"

text \<open>
  The types of the values, their method resolution orders and the classes they are
  instances of, among the builtins and the catalogue classes, in CPython 3.\<open>minor\<close> for
  \<open>minor\<close> from 4 on. The type of a compiled pattern and of a match is named
  \<^verbatim>\<open>SRE_Pattern\<close> and \<^verbatim>\<open>SRE_Match\<close> before 3.7, \<^verbatim>\<open>Pattern\<close> and \<^verbatim>\<open>Match\<close> from
  3.7 on.
\<close>

definition py_type_mro :: "nat \<Rightarrow> pyval \<Rightarrow> string \<times> string list" where
  "py_type_mro minor v =
     (case v of
        VNone \<Rightarrow> (''NoneType'', [''object''])
      | VInt _ \<Rightarrow> (''int'', [''object''])
      | VStr _ \<Rightarrow> (''str'', [''object''])
      | VList _ \<Rightarrow> (''list'', [''object''])
      | VPattern _ \<Rightarrow> (if minor < 7 then ''SRE_Pattern'' else ''Pattern'', [''object''])
      | VMatch _ _ \<Rightarrow> (if minor < 7 then ''SRE_Match'' else ''Match'', [''object'']))"

definition py_isinstance :: "nat \<Rightarrow> pyval \<Rightarrow> string \<Rightarrow> bool" where
  "py_isinstance minor v name =
     (name \<in> set
        (case v of
           VNone \<Rightarrow> [''NoneType'', ''Hashable'', ''object'']
         | VInt _ \<Rightarrow> [''int'', ''Hashable'', ''object'']
         | VStr _ \<Rightarrow>
             [''str'', ''Hashable'', ''Iterable'', ''Sized'', ''Container'', ''Sequence'', ''object'']
         | VList _ \<Rightarrow>
             [''list'', ''Iterable'', ''Sized'', ''Container'', ''Sequence'', ''MutableSequence'',
              ''object'']
         | VPattern _ \<Rightarrow> [fst (py_type_mro minor v), ''Hashable'', ''object'']
         | VMatch _ _ \<Rightarrow> [fst (py_type_mro minor v), ''Hashable'', ''object'']))"

definition py_builtins :: "string \<rightharpoonup> pyobj" where
  "py_builtins =
     map_of [(''int'', PyClass ''int''), (''str'', PyClass ''str''), (''list'', PyClass ''list''),
       (''object'', PyClass ''object''), (''len'', NotAClass), (''print'', NotAClass)]"

definition py_types :: "string \<rightharpoonup> pyobj" where
  "py_types =
     map_of [(''BuiltinFunctionType'', PyClass ''builtin_function_or_method''),
       (''BuiltinMethodType'', PyClass ''builtin_function_or_method''),
       (''CodeType'', PyClass ''code''),
       (''DynamicClassAttribute'', PyClass ''DynamicClassAttribute''),
       (''FrameType'', PyClass ''frame''),
       (''FunctionType'', PyClass ''function''),
       (''GeneratorType'', PyClass ''generator''),
       (''GetSetDescriptorType'', PyClass ''getset_descriptor''),
       (''LambdaType'', PyClass ''function''),
       (''MappingProxyType'', PyClass ''mappingproxy''),
       (''MemberDescriptorType'', PyClass ''member_descriptor''),
       (''MethodType'', PyClass ''method''),
       (''ModuleType'', PyClass ''module''),
       (''SimpleNamespace'', PyClass ''SimpleNamespace''),
       (''TracebackType'', PyClass ''traceback'')]"

text \<open>
  The attributes of the module \<^verbatim>\<open>collections\<close> among the names of the catalogue: before
  CPython 3.10 the module has every abstract base class of the catalogue as an attribute;
  from 3.10 on they are attributes of \<^verbatim>\<open>collections.abc\<close> only, and
  \<^verbatim>\<open>getattr(collections, name, None)\<close> is \<^verbatim>\<open>None\<close> for each of them.
\<close>

definition py_collections :: "nat \<Rightarrow> string \<rightharpoonup> pyobj" where
  "py_collections minor name =
     (if minor < 10 \<and> name \<in> abc_types then Some (PyClass name) else None)"

text \<open>
  The runtime of CPython 3.\<open>minor\<close>, for given iteration orders of the two catalogue sets.
  None of the owners below has a \<^verbatim>\<open>prepare\<close> of its own.
\<close>

definition python :: "nat \<Rightarrow> string list \<Rightarrow> string list \<Rightarrow> string runtime" where
  "python minor interp_order abc_order =
     \<lparr>call = echo, owner_prepare = Inr TheRegistry,
      re_compile = py_re_compile, re_match = py_re_match,
      type_mro = py_type_mro minor, isinstance = py_isinstance minor, builtins = py_builtins,
      types_module = py_types, collections_module = py_collections minor,
      interp_types_iter = interp_order, abc_types_iter = abc_order\<rparr>"

text \<open>
  The runtimes of CPython 3.4 and of CPython 3.11 that iterate the catalogues in the order
  the source lists them.
\<close>

definition listed_interp_types :: "string list" where
  "listed_interp_types =
     [''BuiltinFunctionType'', ''BuiltinMethodType'', ''CodeType'', ''DynamicClassAttribute'',
      ''FrameType'', ''FunctionType'', ''GeneratorType'', ''GetSetDescriptorType'',
      ''LambdaType'', ''MappingProxyType'', ''MemberDescriptorType'', ''MethodType'',
      ''ModuleType'', ''SimpleNamespace'', ''TracebackType'']"

definition listed_abc_types :: "string list" where
  "listed_abc_types =
     [''Hashable'', ''Iterable'', ''Iterator'', ''Sized'', ''Container'', ''Callable'', ''Set'',
      ''MutableSet'', ''Mapping'', ''MutableMapping'', ''MappingView'', ''KeysView'',
      ''ItemsView'', ''ValuesView'', ''Sequence'', ''MutableSequence'', ''ByteString'']"

definition py :: "string runtime" where
  "py = python 4 listed_interp_types listed_abc_types"


text \<open>
  A Dispatcher on which nothing was registered, bound to an owner whose only method is
  \<^verbatim>\<open>generic_handler\<close>.
\<close>

definition generic_only :: "string dispatcher" where
  "generic_only = new_dispatcher Dispatcher [(''generic_handler'', ''fallback'')]"

text \<open>A dispatcher on which the given registrations were made, in that order.\<close>

definition registered ::
  "dispatcher_class \<Rightarrow> (string \<times> 'h) list \<Rightarrow> ((pyval list \<times> kwargs) \<times> string) list \<Rightarrow>
     'h dispatcher" where
  "registered c attrs entries = (new_dispatcher c attrs)\<lparr>registry := entries\<rparr>"

text \<open>
  Dispatchers whose owner has the one method \<^verbatim>\<open>handler\<close>: before any registration, after
  \<^verbatim>\<open>handler\<close> was registered with the key arguments \<^verbatim>\<open>(1, 2)\<close>, and after it was
  registered with the keyword argument \<^verbatim>\<open>x=1\<close> or \<^verbatim>\<open>x=5\<close>.
\<close>

definition one_handler :: "string dispatcher" where
  "one_handler = registered Dispatcher [(''handler'', ''handler'')] []"

definition keyed_1_2 :: "string dispatcher" where
  "keyed_1_2 =
     registered Dispatcher [(''handler'', ''handler'')] [(([VInt 1, VInt 2], []), ''handler'')]"

definition keyed_x1 :: "string dispatcher" where
  "keyed_x1 =
     registered Dispatcher [(''handler'', ''handler'')] [(([], [(''x'', VInt 1)]), ''handler'')]"

definition keyed_x5 :: "string dispatcher" where
  "keyed_x5 =
     registered Dispatcher [(''handler'', ''handler'')] [(([], [(''x'', VInt 5)]), ''handler'')]"

text \<open>
  RegexDispatchers whose owner has the methods \<^verbatim>\<open>first\<close> and \<^verbatim>\<open>second\<close>: before any
  registration, after \<^verbatim>\<open>first\<close> was registered for \<^verbatim>\<open>^a\<close>, and after \<^verbatim>\<open>second\<close> was then
  registered for \<^verbatim>\<open>^ab\<close>; the last of them once a dispatch call has filled the cache.
\<close>

definition no_patterns :: "string dispatcher" where
  "no_patterns = registered RegexDispatcher [(''first'', ''first''), (''second'', ''second'')] []"

definition one_pattern :: "string dispatcher" where
  "one_pattern =
     registered RegexDispatcher [(''first'', ''first''), (''second'', ''second'')]
       [(([VStr ''^a''], []), ''first'')]"

definition two_patterns :: "string dispatcher" where
  "two_patterns =
     registered RegexDispatcher [(''first'', ''first''), (''second'', ''second'')]
       [(([VStr ''^a''], []), ''first''), (([VStr ''^ab''], []), ''second'')]"

definition two_patterns_prepared :: "string dispatcher" where
  "two_patterns_prepared =
     two_patterns
       \<lparr>cached_dispatch_data :=
          Some (Compiled [(VPattern ''^a'', ''first''), (VPattern ''^ab'', ''second'')]),
        prepare_calls := 1\<rparr>"

text \<open>
  A RegexDispatcher with \<^verbatim>\<open>first\<close> registered for \<^verbatim>\<open>^a\<close> whose owner also has a
  \<^verbatim>\<open>generic_handler\<close>, and one whose only registration was made without a pattern.
\<close>

definition pattern_and_generic :: "string dispatcher" where
  "pattern_and_generic =
     registered RegexDispatcher [(''first'', ''first''), (''generic_handler'', ''fallback'')]
       [(([VStr ''^a''], []), ''first'')]"

definition missing_pattern :: "string dispatcher" where
  "missing_pattern = registered RegexDispatcher [(''first'', ''first'')] [(([], []), ''first'')]"

text \<open>
  A Dispatcher with three registrations, the second of them for the method \<^verbatim>\<open>stop\<close>, which
  raises DispatchInterrupt.
\<close>

definition interrupted :: "string dispatcher" where
  "interrupted =
     registered Dispatcher [(''handler'', ''handler''), (''stop'', ''interrupt'')]
       [(([], []), ''handler''), (([], []), ''stop''), (([], []), ''handler'')]"


definition catch_all :: "string dispatcher" where
  "catch_all =
     new_dispatcher TypeDispatcher
       [(''handle_Iterable'', ''catch_all''), (''handle_Sized'', ''catch_all'')]"

text \<open>The dispatchers above once a dispatch call has read \<^verbatim>\<open>dispatch_data\<close>.\<close>

definition pattern_and_generic_prepared :: "string dispatcher" where
  "pattern_and_generic_prepared =
     pattern_and_generic
       \<lparr>cached_dispatch_data := Some (Compiled [(VPattern ''^a'', ''first'')]),
        prepare_calls := 1\<rparr>"

text \<open>The capability categories of the catalogue that a list belongs to.\<close>

definition list_abcs :: "string set" where
  "list_abcs = set [''Iterable'', ''Sized'', ''Container'', ''Sequence'', ''MutableSequence'']"

section \<open>Basic facts\<close>

lemma delegator_plain: "\<not> delegates d name \<Longrightarrow> delegator name d method = Inr method"
  by (simp add: delegator_def)

lemma fold_update_same:
  "\<forall>(k, v) \<in> set other. map_of self k = Some v \<Longrightarrow>
   fold (\<lambda>(k, v). AList.update k v) other self = self"
proof (induction other)
  case Nil
  then show ?case by simp
next
  case (Cons kv other)
  obtain k v where kv: "kv = (k, v)" by (cases kv)
  from Cons.prems kv have "map_of self k = Some v" by simp
  then have "AList.update k v self = self" by (rule update_triv)
  with Cons kv show ?case by simp
qed

lemma dict_update_self: "distinct (map fst kwargs) \<Longrightarrow> dict_update kwargs kwargs = kwargs"
  unfolding dict_update_def by (rule fold_update_same) auto

lemma NoClobberDict_update_self:
  "distinct (map fst kwargs) \<Longrightarrow> NoClobberDict_update kwargs kwargs = Inr kwargs"
  by (simp add: NoClobberDict_update_def dict_update_self list_ex_iff)

lemma new_dispatcher_plain:
  "map_of attrs name = None \<Longrightarrow> \<not> delegates (new_dispatcher c attrs) name"
  by (simp add: delegates_def new_dispatcher_def getattr_def)

section \<open>The Dispatcher with an empty registry\<close>

lemma Dispatcher_gen_methods_empty:
  "registry d = [] \<Longrightarrow> getattr (inst d) ''generic_handler'' = Some g \<Longrightarrow>
   Dispatcher_gen_methods d args kwargs = Gen [Tuple3 g args kwargs] (Some (Raise DispatchError))"
  by (simp add: Dispatcher_gen_methods_def yield_from_def)

text \<open>
  C10. A Dispatcher with an empty registry whose owner defines \<^verbatim>\<open>generic_handler\<close>:
  \<^verbatim>\<open>gen_methods\<close> yields the generic handler once, paired with the arguments of the call,
  and raises DispatchError when it is advanced past that yield. So \<^verbatim>\<open>get_method\<close> returns
  that candidate and \<^verbatim>\<open>dispatch\<close> returns what the generic handler returns (it is called
  with the positional arguments of the call twice over, as \<^verbatim>\<open>apply_handler\<close> appends the
  candidate's arguments to the call's), while \<^verbatim>\<open>gen_dispatch\<close> consumed to its end yields
  the handler's result and then raises DispatchError.
\<close>

theorem generic_handler_then_DispatchError:
  assumes "cls d = Dispatcher" and "registry d = []"
    and "getattr (inst d) ''generic_handler'' = Some g"
    and "\<not> delegates d ''gen_methods''" and "\<not> delegates d ''get_method''"
    and "\<not> delegates d ''dispatch''" and "\<not> delegates d ''gen_dispatch''"
    and "\<not> delegates d ''apply_handler''"
    and "distinct (map fst kwargs)"
  shows "gen_methods rt d args kwargs =
           Inr (Gen [Tuple3 g args kwargs] (Some (Raise DispatchError)), d)
       \<and> get_method rt d args kwargs = (Inr (Tuple3 g args kwargs), d)
       \<and> dispatch rt d args kwargs = (lift (call rt g (args @ args) kwargs), d)
       \<and> gen_dispatch rt d args kwargs =
           Inr (case call rt g (args @ args) kwargs of
                  Inl e \<Rightarrow> Gen [] (Some (Raise e))
                | Inr result \<Rightarrow> Gen [result] (Some (Raise DispatchError)), d)"
proof -
  have gm: "gen_methods rt d args kwargs =
           Inr (Gen [Tuple3 g args kwargs] (Some (Raise DispatchError)), d)"
    using assms by (simp add: gen_methods_def delegator_plain Dispatcher_gen_methods_empty)
  have ah: "apply_handler rt d (Tuple3 g args kwargs) args kwargs =
              lift (call rt g (args @ args) kwargs)"
    using assms
    by (simp add: apply_handler_def delegator_plain join_def Dispatcher_apply_handler_def
        NoClobberDict_update_self)
  have gd: "gen_dispatch rt d args kwargs =
           Inr (case call rt g (args @ args) kwargs of
                  Inl e \<Rightarrow> Gen [] (Some (Raise e))
                | Inr result \<Rightarrow> Gen [result] (Some (Raise DispatchError)), d)"
    using assms
    by (simp add: gen_dispatch_def delegator_plain gm ah lift_def gen_cons_def split: sum.splits)
  have dp: "dispatch rt d args kwargs = (lift (call rt g (args @ args) kwargs), d)"
    using assms by (simp add: dispatch_def gd lift_def split: sum.splits)
  have gt: "get_method rt d args kwargs = (Inr (Tuple3 g args kwargs), d)"
    using assms by (simp add: get_method_def gm)
  from gm gt dp gd show ?thesis by blast
qed

theorem generic_handler_then_DispatchError_witness:
  "cls generic_only = Dispatcher \<and> registry generic_only = []
   \<and> getattr (inst generic_only) ''generic_handler'' = Some ''fallback''
   \<and> \<not> delegates generic_only ''gen_methods'' \<and> \<not> delegates generic_only ''get_method''
   \<and> \<not> delegates generic_only ''dispatch'' \<and> \<not> delegates generic_only ''gen_dispatch''
   \<and> \<not> delegates generic_only ''apply_handler''
   \<and> distinct (map fst [(''x'', VInt 5)])
   \<and> gen_methods py generic_only [VInt 7] [(''x'', VInt 5)] =
       Inr (Gen [Tuple3 ''fallback'' [VInt 7] [(''x'', VInt 5)]] (Some (Raise DispatchError)),
            generic_only)
   \<and> get_method py generic_only [VInt 7] [(''x'', VInt 5)] =
       (Inr (Tuple3 ''fallback'' [VInt 7] [(''x'', VInt 5)]), generic_only)
   \<and> dispatch py generic_only [VInt 7] [(''x'', VInt 5)] =
       (Inr (VList [VStr ''fallback'', VList [VInt 7, VInt 7],
                    VList [VList [VStr ''x'', VInt 5]]]), generic_only)
   \<and> gen_dispatch py generic_only [VInt 7] [(''x'', VInt 5)] =
       Inr (Gen [VList [VStr ''fallback'', VList [VInt 7, VInt 7],
                        VList [VList [VStr ''x'', VInt 5]]]] (Some (Raise DispatchError)),
            generic_only)"
proof -
  have plain: "\<not> delegates generic_only ''gen_methods''" "\<not> delegates generic_only ''get_method''"
    "\<not> delegates generic_only ''dispatch''" "\<not> delegates generic_only ''gen_dispatch''"
    "\<not> delegates generic_only ''apply_handler''"
    by (simp_all add: generic_only_def new_dispatcher_plain)
  have given: "cls generic_only = Dispatcher" "registry generic_only = []"
    "getattr (inst generic_only) ''generic_handler'' = Some ''fallback''"
    by (simp_all add: generic_only_def new_dispatcher_def getattr_def)
  have ran: "call py ''fallback'' [VInt 7, VInt 7] [(''x'', VInt 5)] =
      Inr (VList [VStr ''fallback'', VList [VInt 7, VInt 7], VList [VList [VStr ''x'', VInt 5]]])"
    by (simp add: py_def python_def echo_def)
  show ?thesis
    using generic_handler_then_DispatchError
      [of generic_only "''fallback''" "[(''x'', VInt 5)]" py "[VInt 7]", OF given plain]
    by (simp add: ran lift_def given plain)
qed

section \<open>Registration and the Signature strategy\<close>

lemma registered_plain:
  "map_of attrs name = None \<Longrightarrow> \<not> delegates (registered c attrs entries) name"
  by (simp add: delegates_def registered_def new_dispatcher_def getattr_def)

lemma registered_fields:
  "cls (registered c attrs entries) = c"
  "registry (registered c attrs entries) = entries"
  "inst (registered c attrs entries) = Some (map_of attrs)"
  "cached_dispatch_data (registered c attrs entries) = None"
  "prepare_calls (registered c attrs entries) = 0"
  "method_prefix (registered c attrs entries) = ''handle_''"
  by (simp_all add: registered_def new_dispatcher_def)

lemma register_registered:
  assumes "map_of attrs ''register'' = None"
  shows "register (registered c attrs entries) name args kwargs =
     Inr (registered c attrs (entries @ [((args, kwargs), name)]))"
proof -
  have "\<not> delegates (registered c attrs entries) ''register''"
    using assms by (rule registered_plain)
  then have "register (registered c attrs entries) name args kwargs =
      Inr ((registered c attrs entries)
             \<lparr>registry := registry (registered c attrs entries) @ [((args, kwargs), name)]\<rparr>)"
    by (simp add: register_def delegator_plain)
  then show ?thesis by (simp add: registered_def)
qed

lemma register_plain:
  "register d0 name margs mkwargs = Inr d \<Longrightarrow>
   d = d0\<lparr>registry := registry d0 @ [((margs, mkwargs), name)]\<rparr>"
  by (auto simp: register_def delegator_def split: if_splits)

lemma gen_dispatch_first_registration:
  assumes "cls d = Dispatcher" and "registry d = ((margs, mkwargs), name) # rest"
    and "getattr (inst d) name = Some h"
    and "\<not> delegates d ''gen_dispatch''" and "\<not> delegates d ''gen_methods''"
  shows "\<exists>g. gen_dispatch rt d args kwargs = Inr (g, d) \<and>
     first_next g = (case apply_handler rt d (Tuple3 h margs mkwargs) args kwargs of
                       Inl s \<Rightarrow> Inl (Some s) | Inr result \<Rightarrow> Inr result)"
  using assms
  by (simp add: gen_dispatch_def gen_methods_def delegator_plain Dispatcher_gen_methods_def
      Let_def gen_cons_def first_next_def split: sum.splits)

lemma dispatch_first_next:
  assumes "\<not> delegates d ''dispatch''" and "gen_dispatch rt d args kwargs = Inr (g, d')"
    and "first_next g = (case r of Inl s \<Rightarrow> Inl (Some s) | Inr result \<Rightarrow> Inr result)"
  shows "dispatch rt d args kwargs = (r, d')"
  using assms
  by (auto simp: dispatch_def first_next_def split: list.splits sum.splits option.splits)

lemma Dispatcher_apply_Tuple3:
  assumes "cls d = Dispatcher" and "\<not> delegates d ''apply_handler''"
  shows "apply_handler rt d (Tuple3 h margs mkwargs) args kwargs =
     (if list_ex (\<lambda>dupe. map_of kwargs dupe \<noteq> map_of mkwargs dupe) (dupes kwargs mkwargs)
      then Inl (Raise KeyClobberError)
      else lift (call rt h (args @ margs) (dict_update kwargs mkwargs)))"
  using assms
  by (simp add: apply_handler_def delegator_plain join_def Dispatcher_apply_handler_def
      NoClobberDict_update_def lift_def)

lemma Dispatcher_dispatch_first_registration:
  assumes "cls d = Dispatcher" and "registry d = ((margs, mkwargs), name) # rest"
    and "getattr (inst d) name = Some h"
    and "\<not> delegates d ''dispatch''" and "\<not> delegates d ''gen_dispatch''"
    and "\<not> delegates d ''gen_methods''" and "\<not> delegates d ''apply_handler''"
  shows "dispatch rt d args kwargs =
     (if list_ex (\<lambda>dupe. map_of kwargs dupe \<noteq> map_of mkwargs dupe) (dupes kwargs mkwargs)
      then Inl (Raise KeyClobberError)
      else lift (call rt h (args @ margs) (dict_update kwargs mkwargs)), d)"
proof -
  obtain g where g: "gen_dispatch rt d args kwargs = Inr (g, d)"
    and fn: "first_next g = (case apply_handler rt d (Tuple3 h margs mkwargs) args kwargs of
                       Inl s \<Rightarrow> Inl (Some s) | Inr result \<Rightarrow> Inr result)"
    using gen_dispatch_first_registration [OF assms(1,2,3,5,6)] by blast
  have "dispatch rt d args kwargs = (apply_handler rt d (Tuple3 h margs mkwargs) args kwargs, d)"
    using assms(4) g fn by (rule dispatch_first_next)
  then show ?thesis
    by (simp add: Dispatcher_apply_Tuple3 [OF assms(1) assms(7)])
qed

lemma one_handler_plain:
  "\<not> delegates (registered Dispatcher [(''handler'', ''handler'')] entries) ''dispatch''"
  "\<not> delegates (registered Dispatcher [(''handler'', ''handler'')] entries) ''gen_dispatch''"
  "\<not> delegates (registered Dispatcher [(''handler'', ''handler'')] entries) ''gen_methods''"
  "\<not> delegates (registered Dispatcher [(''handler'', ''handler'')] entries) ''apply_handler''"
  "\<not> delegates (registered Dispatcher [(''handler'', ''handler'')] entries) ''register''"
  by (simp_all add: registered_plain)

lemma one_handler_getattr:
  "getattr (inst (registered Dispatcher [(''handler'', ''handler'')] entries)) ''handler'' =
     Some ''handler''"
  by (simp add: registered_fields getattr_def)

lemma echo_handler:
  "call py ''handler'' args kwargs =
     Inr (VList [VStr ''handler'', VList args, VList (map (\<lambda>(k, v). VList [VStr k, v]) kwargs)])"
  by (simp add: py_def python_def echo_def)

text \<open>
  C5, as the code has it. After a handler was registered with recorded arguments, a
  dispatch call raises the no-clobber error (KeyClobberError) exactly when one of its keyword
  arguments is also a recorded one and the two values differ; otherwise (no keyword in
  common, or equal values for every common keyword) the handler is called with the
  positional arguments of the call followed by the recorded ones, and with the keyword
  arguments of the call merged with the recorded ones. Registered with \<^verbatim>\<open>(1, 2)\<close> and
  called with \<^verbatim>\<open>x=5\<close>, the handler receives \<^verbatim>\<open>(1, 2)\<close> and \<^verbatim>\<open>x=5\<close>.
\<close>

theorem signature_arguments_merged:
  assumes "cls d0 = Dispatcher" and "registry d0 = []"
    and "register d0 name margs mkwargs = Inr d"
    and "getattr (inst d) name = Some h"
    and "\<not> delegates d ''dispatch''" and "\<not> delegates d ''gen_dispatch''"
    and "\<not> delegates d ''gen_methods''" and "\<not> delegates d ''apply_handler''"
  shows "dispatch rt d args kwargs =
     (if list_ex (\<lambda>dupe. map_of kwargs dupe \<noteq> map_of mkwargs dupe) (dupes kwargs mkwargs)
      then Inl (Raise KeyClobberError)
      else lift (call rt h (args @ margs) (dict_update kwargs mkwargs)), d)"
proof -
  from assms(3) have d: "d = d0\<lparr>registry := registry d0 @ [((margs, mkwargs), name)]\<rparr>"
    by (rule register_plain)
  with assms(1,2) have reg: "registry d = ((margs, mkwargs), name) # []"
    and c: "cls d = Dispatcher"
    by simp_all
  show ?thesis
    using c reg assms(4-8) by (rule Dispatcher_dispatch_first_registration)
qed

theorem signature_arguments_merged_witness:
  "cls one_handler = Dispatcher \<and> registry one_handler = []
   \<and> register one_handler ''handler'' [VInt 1, VInt 2] [] = Inr keyed_1_2
   \<and> getattr (inst keyed_1_2) ''handler'' = Some ''handler''
   \<and> \<not> delegates keyed_1_2 ''dispatch'' \<and> \<not> delegates keyed_1_2 ''gen_dispatch''
   \<and> \<not> delegates keyed_1_2 ''gen_methods'' \<and> \<not> delegates keyed_1_2 ''apply_handler''
   \<and> dispatch py keyed_1_2 [] [(''x'', VInt 5)] =
       (Inr (VList [VStr ''handler'', VList [VInt 1, VInt 2],
                    VList [VList [VStr ''x'', VInt 5]]]), keyed_1_2)
   \<and> register one_handler ''handler'' [] [(''x'', VInt 1)] = Inr keyed_x1
   \<and> dispatch py keyed_x1 [] [(''x'', VInt 5)] = (Inl (Raise KeyClobberError), keyed_x1)"
proof -
  have fresh: "cls one_handler = Dispatcher" "registry one_handler = []"
    by (simp_all add: one_handler_def registered_fields)
  have r12: "register one_handler ''handler'' [VInt 1, VInt 2] [] = Inr keyed_1_2"
    and rx1: "register one_handler ''handler'' [] [(''x'', VInt 1)] = Inr keyed_x1"
    by (simp_all add: one_handler_def keyed_1_2_def keyed_x1_def register_registered)
  have m12: "getattr (inst keyed_1_2) ''handler'' = Some ''handler''"
    and mx1: "getattr (inst keyed_x1) ''handler'' = Some ''handler''"
    unfolding keyed_1_2_def keyed_x1_def by (rule one_handler_getattr)+
  have p12: "\<not> delegates keyed_1_2 ''dispatch''" "\<not> delegates keyed_1_2 ''gen_dispatch''"
    "\<not> delegates keyed_1_2 ''gen_methods''" "\<not> delegates keyed_1_2 ''apply_handler''"
    unfolding keyed_1_2_def by (rule one_handler_plain)+
  have px1: "\<not> delegates keyed_x1 ''dispatch''" "\<not> delegates keyed_x1 ''gen_dispatch''"
    "\<not> delegates keyed_x1 ''gen_methods''" "\<not> delegates keyed_x1 ''apply_handler''"
    unfolding keyed_x1_def by (rule one_handler_plain)+
  have a: "dispatch py keyed_1_2 [] [(''x'', VInt 5)] =
       (Inr (VList [VStr ''handler'', VList [VInt 1, VInt 2],
                    VList [VList [VStr ''x'', VInt 5]]]), keyed_1_2)"
    using signature_arguments_merged [OF fresh r12 m12 p12, of py "[]" "[(''x'', VInt 5)]"]
    by (simp add: dupes_def dict_update_def lift_def echo_handler)
  have b: "dispatch py keyed_x1 [] [(''x'', VInt 5)] = (Inl (Raise KeyClobberError), keyed_x1)"
    using signature_arguments_merged [OF fresh rx1 mx1 px1, of py "[]" "[(''x'', VInt 5)]"]
    by (simp add: dupes_def)
  from fresh r12 m12 p12 a rx1 b show ?thesis by simp
qed

theorem duplicate_keyword_equal_value_counterexample:
  "register one_handler ''handler'' [] [(''x'', VInt 5)] = Inr keyed_x5
   \<and> dupes [(''x'', VInt 5)] [(''x'', VInt 5)] = [''x'']
   \<and> dispatch py keyed_x5 [] [(''x'', VInt 5)] =
       (Inr (VList [VStr ''handler'', VList [], VList [VList [VStr ''x'', VInt 5]]]), keyed_x5)"
proof -
  have r: "register one_handler ''handler'' [] [(''x'', VInt 5)] = Inr keyed_x5"
    by (simp add: one_handler_def keyed_x5_def register_registered)
  have c: "cls keyed_x5 = Dispatcher"
    and reg: "registry keyed_x5 = (([], [(''x'', VInt 5)]), ''handler'') # []"
    by (simp_all add: keyed_x5_def registered_fields)
  have m: "getattr (inst keyed_x5) ''handler'' = Some ''handler''"
    unfolding keyed_x5_def by (rule one_handler_getattr)
  have p: "\<not> delegates keyed_x5 ''dispatch''" "\<not> delegates keyed_x5 ''gen_dispatch''"
    "\<not> delegates keyed_x5 ''gen_methods''" "\<not> delegates keyed_x5 ''apply_handler''"
    unfolding keyed_x5_def by (rule one_handler_plain)+
  have "dispatch py keyed_x5 [] [(''x'', VInt 5)] =
       (Inr (VList [VStr ''handler'', VList [], VList [VList [VStr ''x'', VInt 5]]]), keyed_x5)"
    using Dispatcher_dispatch_first_registration [OF c reg m p, of py "[]" "[(''x'', VInt 5)]"]
    by (simp add: dupes_def dict_update_def lift_def echo_handler)
  with r show ?thesis by (simp add: dupes_def)
qed

section \<open>The cached dispatch data\<close>

lemma apply_handler_cache_irrelevant:
  "apply_handler rt (d\<lparr>prepare_calls := n, cached_dispatch_data := c\<rparr>) m args kwargs =
   apply_handler rt d m args kwargs"
  by (simp add: apply_handler_def delegator_def delegates_def)

lemma apply_each_cache_irrelevant:
  "apply_each rt (d\<lparr>prepare_calls := n, cached_dispatch_data := c\<rparr>) args kwargs ms e =
   apply_each rt d args kwargs ms e"
  by (induction ms) (simp_all add: apply_handler_cache_irrelevant split: sum.splits)

lemma dispatch_data_cached:
  "cached_dispatch_data d = Some data \<Longrightarrow> dispatch_data rt d = (Inr data, d)"
  by (simp add: dispatch_data_def)

lemma dispatch_data_fresh:
  assumes "cached_dispatch_data d = None" and "cls d = RegexDispatcher"
    and "\<not> delegates d ''prepare''" and "compile_all rt (registry d) = Inr data"
  shows "dispatch_data rt d =
     (Inr (Compiled data),
      d\<lparr>prepare_calls := Suc (prepare_calls d), cached_dispatch_data := Some (Compiled data)\<rparr>)"
  using assms by (simp add: dispatch_data_def prepare_def)

lemma gen_methods_cached:
  "cached_dispatch_data d = Some data \<Longrightarrow> gen_methods rt d args kwargs = Inr (g, d') \<Longrightarrow> d' = d"
  by (auto simp: gen_methods_def delegator_def RegexDispatcher_gen_methods_def
      dispatch_data_def split: if_splits dispatcher_class.splits sum.splits prepared.splits)

lemma gen_dispatch_cached:
  "cached_dispatch_data d = Some data \<Longrightarrow> gen_dispatch rt d args kwargs = Inr (g, d') \<Longrightarrow> d' = d"
  by (auto simp: gen_dispatch_def delegator_def Let_def split: if_splits sum.splits
      dest: gen_methods_cached)

lemma dispatch_cached:
  "cached_dispatch_data d = Some data \<Longrightarrow> snd (dispatch rt d args kwargs) = d"
  by (auto simp: dispatch_def split: sum.splits list.splits option.splits
      dest: gen_dispatch_cached)

lemma perform_cached:
  assumes "cached_dispatch_data d = Some data" and "\<not> is_DeleteCache operation"
  shows "cached_dispatch_data (perform rt d operation) = Some data \<and>
         prepare_calls (perform rt d operation) = prepare_calls d"
proof (cases operation)
  case (DispatchCall args kwargs)
  with assms show ?thesis by (simp add: dispatch_cached)
next
  case (GenDispatchCall args kwargs)
  with assms show ?thesis
    by (auto split: sum.splits dest: gen_dispatch_cached)
next
  case (RegisterCall name args kwargs)
  with assms show ?thesis
    by (auto simp: register_def delegator_def split: sum.splits if_splits)
next
  case DeleteCache
  with assms show ?thesis by simp
qed

lemma perform_all_cached:
  assumes "cached_dispatch_data d = Some data" and "list_all (\<lambda>operation. \<not> is_DeleteCache operation) ops"
  shows "cached_dispatch_data (perform_all rt d ops) = Some data \<and>
         prepare_calls (perform_all rt d ops) = prepare_calls d"
  using assms unfolding perform_all_def
proof (induction ops arbitrary: d)
  case Nil
  then show ?case by simp
next
  case (Cons operation ops)
  from Cons.prems have step: "cached_dispatch_data (perform rt d operation) = Some data"
    "prepare_calls (perform rt d operation) = prepare_calls d"
    using perform_cached [of d data operation rt] by simp_all
  from Cons.IH [OF step(1)] Cons.prems(2) step(2) show ?case by simp
qed

section \<open>Registration order\<close>

lemma get_text_plain: "get_text d args kwargs = Inr text \<Longrightarrow> \<not> delegates d ''get_text''"
  by (auto simp: get_text_def delegator_def join_def split: if_splits)

lemma RegexDispatcher_gen_methods_fresh:
  assumes "cls d = RegexDispatcher" and "cached_dispatch_data d = None"
    and "\<not> delegates d ''gen_methods''" and "\<not> delegates d ''prepare''"
    and "get_text d args kwargs = Inr text"
    and "compile_all rt (registry d) = Inr data"
    and "d' = d\<lparr>prepare_calls := Suc (prepare_calls d),
                 cached_dispatch_data := Some (Compiled data)\<rparr>"
  shows "gen_methods rt d args kwargs =
           Inr (yield_from (match_each rt (inst d) text data) (try_generic d), d')"
  using assms
  by (simp add: gen_methods_def delegator_plain RegexDispatcher_gen_methods_def
      dispatch_data_fresh try_generic_def)

lemma RegexDispatcher_gen_methods_failing:
  assumes "cls d = RegexDispatcher" and "cached_dispatch_data d = None"
    and "\<not> delegates d ''gen_methods''" and "\<not> delegates d ''prepare''"
    and "get_text d args kwargs = Inr text"
    and "compile_all rt (registry d) = Inl TypeError"
  shows "gen_methods rt d args kwargs =
           Inr (Gen [] (Some (Raise TypeError)), d\<lparr>prepare_calls := Suc (prepare_calls d)\<rparr>)"
  using assms
  by (simp add: gen_methods_def delegator_plain RegexDispatcher_gen_methods_def
      dispatch_data_def prepare_def)

lemma dispatch_state:
  assumes "\<not> delegates d ''dispatch''" and "\<not> delegates d ''gen_dispatch''"
    and "gen_methods rt d args kwargs = Inr (methods, d')"
  shows "snd (dispatch rt d args kwargs) = d'"
  using assms
  by (simp add: dispatch_def gen_dispatch_def delegator_plain Let_def
      split: list.splits option.splits)

lemma dispatch_first_candidate:
  assumes "\<not> delegates d ''dispatch''" and "\<not> delegates d ''gen_dispatch''"
    and "gen_methods rt d args kwargs = Inr (methods, d')"
    and "yields methods = c # others"
  shows "dispatch rt d args kwargs = (apply_handler rt d' c args kwargs, d')"
  using assms
  by (simp add: dispatch_def gen_dispatch_def delegator_plain Let_def gen_cons_def
      split: list.splits option.splits sum.splits)

text \<open>
  C3. Registration order is the tie-break. \<^verbatim>\<open>register\<close> appends, so two registrations
  made one after the other on a dispatcher with an empty registry stand in the registry in
  that order; when both match the call, single-mode \<^verbatim>\<open>dispatch\<close> returns what applying
  the handler of the first one gives. For the patterns \<^verbatim>\<open>^a\<close> and \<^verbatim>\<open>^ab\<close> registered
  in that order and the text \<^verbatim>\<open>abc\<close> this is the handler registered for \<^verbatim>\<open>^a\<close>.
\<close>

theorem registration_order_tie_break:
  assumes "registry d0 = []" and "cached_dispatch_data d0 = None"
    and "register d0 name1 margs1 mkwargs1 = Inr d1"
    and "register d1 name2 margs2 mkwargs2 = Inr d2"
    and "candidate rt d2 args kwargs ((margs1, mkwargs1), name1) = Some c1"
    and "candidate rt d2 args kwargs ((margs2, mkwargs2), name2) = Some c2"
    and "\<not> delegates d2 ''dispatch''" and "\<not> delegates d2 ''gen_dispatch''"
    and "\<not> delegates d2 ''gen_methods''" and "\<not> delegates d2 ''prepare''"
  shows "fst (dispatch rt d2 args kwargs) = apply_handler rt d2 c1 args kwargs"
proof -
  have d1: "d1 = d0\<lparr>registry := registry d0 @ [((margs1, mkwargs1), name1)]\<rparr>"
    using assms(3) by (rule register_plain)
  have d2: "d2 = d1\<lparr>registry := registry d1 @ [((margs2, mkwargs2), name2)]\<rparr>"
    using assms(4) by (rule register_plain)
  have reg: "registry d2 = [((margs1, mkwargs1), name1), ((margs2, mkwargs2), name2)]"
    and fresh: "cached_dispatch_data d2 = None"
    using assms(1,2) d1 d2 by simp_all
  show ?thesis
  proof (cases "cls d2")
    case Dispatcher
    from assms(5) Dispatcher obtain h where h: "getattr (inst d2) name1 = Some h"
      and c1: "c1 = Tuple3 h margs1 mkwargs1"
      by (auto simp: candidate_def split: option.splits)
    have gm: "gen_methods rt d2 args kwargs = Inr (Dispatcher_gen_methods d2 args kwargs, d2)"
      using Dispatcher assms(9) by (simp add: gen_methods_def delegator_plain)
    have "\<exists>others. yields (Dispatcher_gen_methods d2 args kwargs) = c1 # others"
      using reg h c1
      by (simp add: Dispatcher_gen_methods_def Let_def gen_cons_def split: option.splits)
    then obtain others where "yields (Dispatcher_gen_methods d2 args kwargs) = c1 # others" ..
    with assms(7,8) gm have "dispatch rt d2 args kwargs = (apply_handler rt d2 c1 args kwargs, d2)"
      by (rule dispatch_first_candidate)
    then show ?thesis by simp
  next
    case TypeDispatcher
    with assms(5) show ?thesis by (simp add: candidate_def split: option.splits)
  next
    case RegexDispatcher
    from assms(5) RegexDispatcher obtain h tok rgx1 matchobj
      where h: "getattr (inst d2) name1 = Some h"
        and tok: "get_text d2 args kwargs = Inr tok"
        and rgx1: "re_compile rt margs1 mkwargs1 = Inr rgx1"
        and m: "re_match rt rgx1 tok = Inr (Some matchobj)"
        and c1: "c1 = Tuple2 h [tok, matchobj]"
      by (auto simp: candidate_def split: option.splits sum.splits)
    from assms(6) RegexDispatcher obtain rgx2 where rgx2: "re_compile rt margs2 mkwargs2 = Inr rgx2"
      by (auto simp: candidate_def split: option.splits sum.splits)
    have data: "compile_all rt (registry d2) = Inr [(rgx1, name1), (rgx2, name2)]"
      using reg rgx1 rgx2 by simp
    define d' where "d' = d2\<lparr>prepare_calls := Suc (prepare_calls d2),
        cached_dispatch_data := Some (Compiled [(rgx1, name1), (rgx2, name2)])\<rparr>"
    have gm: "gen_methods rt d2 args kwargs =
        Inr (yield_from (match_each rt (inst d2) tok [(rgx1, name1), (rgx2, name2)])
               (try_generic d2), d')"
      using RegexDispatcher fresh assms(9,10) tok data d'_def
      by (rule RegexDispatcher_gen_methods_fresh)
    have "\<exists>others. yields (yield_from (match_each rt (inst d2) tok [(rgx1, name1), (rgx2, name2)])
               (try_generic d2)) = c1 # others"
      using h m c1
      by (simp add: yield_from_def gen_cons_def split: option.splits sum.splits)
    then obtain others where "yields (yield_from (match_each rt (inst d2) tok
        [(rgx1, name1), (rgx2, name2)]) (try_generic d2)) = c1 # others" ..
    with assms(7,8) gm have "dispatch rt d2 args kwargs = (apply_handler rt d' c1 args kwargs, d')"
      by (rule dispatch_first_candidate)
    then show ?thesis by (simp add: d'_def apply_handler_cache_irrelevant)
  qed
qed

lemma two_handlers_plain:
  "\<not> delegates (registered RegexDispatcher [(''first'', ''first''), (''second'', ''second'')] entries) ''dispatch''"
  "\<not> delegates (registered RegexDispatcher [(''first'', ''first''), (''second'', ''second'')] entries) ''gen_dispatch''"
  "\<not> delegates (registered RegexDispatcher [(''first'', ''first''), (''second'', ''second'')] entries) ''gen_methods''"
  "\<not> delegates (registered RegexDispatcher [(''first'', ''first''), (''second'', ''second'')] entries) ''prepare''"
  "\<not> delegates (registered RegexDispatcher [(''first'', ''first''), (''second'', ''second'')] entries) ''get_text''"
  "\<not> delegates (registered RegexDispatcher [(''first'', ''first''), (''second'', ''second'')] entries) ''apply_handler''"
  "\<not> delegates (registered RegexDispatcher [(''first'', ''first''), (''second'', ''second'')] entries) ''register''"
  by (simp_all add: registered_plain)

lemma py_fields:
  "call py = echo" "re_compile py = py_re_compile" "re_match py = py_re_match"
  by (simp_all add: py_def python_def)

lemma compile_a: "py_re_compile [VStr ''^a''] [] = Inr (VPattern ''^a'')"
  and compile_ab: "py_re_compile [VStr ''^ab''] [] = Inr (VPattern ''^ab'')"
  and compile_missing: "py_re_compile [] [] = Inl TypeError"
  by (simp_all add: py_re_compile_def literal_def)

lemma match_a: "py_re_match (VPattern ''^a'') (VStr ''abc'') = Inr (Some (VMatch ''^a'' ''a''))"
  and match_ab: "py_re_match (VPattern ''^ab'') (VStr ''abc'') = Inr (Some (VMatch ''^ab'' ''ab''))"
  by (simp_all add: py_re_match_def literal_def)

lemma get_text_one:
  "\<not> delegates d ''get_text'' \<Longrightarrow> get_text d [t] [] = Inr t"
  by (simp add: get_text_def delegator_plain join_def)

theorem registration_order_tie_break_witness:
  "registry no_patterns = [] \<and> cached_dispatch_data no_patterns = None
   \<and> register no_patterns ''first'' [VStr ''^a''] [] = Inr one_pattern
   \<and> register one_pattern ''second'' [VStr ''^ab''] [] = Inr two_patterns
   \<and> candidate py two_patterns [VStr ''abc''] [] (([VStr ''^a''], []), ''first'') =
       Some (Tuple2 ''first'' [VStr ''abc'', VMatch ''^a'' ''a''])
   \<and> candidate py two_patterns [VStr ''abc''] [] (([VStr ''^ab''], []), ''second'') =
       Some (Tuple2 ''second'' [VStr ''abc'', VMatch ''^ab'' ''ab''])
   \<and> \<not> delegates two_patterns ''dispatch'' \<and> \<not> delegates two_patterns ''gen_dispatch''
   \<and> \<not> delegates two_patterns ''gen_methods'' \<and> \<not> delegates two_patterns ''prepare''
   \<and> fst (dispatch py two_patterns [VStr ''abc''] []) =
       Inr (VList [VStr ''first'', VList [VStr ''abc'', VMatch ''^a'' ''a''], VList []])"
proof -
  have fresh: "registry no_patterns = []" "cached_dispatch_data no_patterns = None"
    by (simp_all add: no_patterns_def registered_fields)
  have r1: "register no_patterns ''first'' [VStr ''^a''] [] = Inr one_pattern"
    and r2: "register one_pattern ''second'' [VStr ''^ab''] [] = Inr two_patterns"
    by (simp_all add: no_patterns_def one_pattern_def two_patterns_def register_registered)
  have p: "\<not> delegates two_patterns ''dispatch''" "\<not> delegates two_patterns ''gen_dispatch''"
    "\<not> delegates two_patterns ''gen_methods''" "\<not> delegates two_patterns ''prepare''"
    unfolding two_patterns_def by (rule two_handlers_plain)+
  have q: "\<not> delegates two_patterns ''get_text''" "\<not> delegates two_patterns ''apply_handler''"
    unfolding two_patterns_def by (rule two_handlers_plain)+
  have f: "cls two_patterns = RegexDispatcher"
    "getattr (inst two_patterns) ''first'' = Some ''first''"
    "getattr (inst two_patterns) ''second'' = Some ''second''"
    by (simp_all add: two_patterns_def registered_fields getattr_def)
  have c1: "candidate py two_patterns [VStr ''abc''] [] (([VStr ''^a''], []), ''first'') =
       Some (Tuple2 ''first'' [VStr ''abc'', VMatch ''^a'' ''a''])"
    by (simp add: candidate_def f get_text_one q py_fields compile_a match_a)
  have c2: "candidate py two_patterns [VStr ''abc''] [] (([VStr ''^ab''], []), ''second'') =
       Some (Tuple2 ''second'' [VStr ''abc'', VMatch ''^ab'' ''ab''])"
    by (simp add: candidate_def f get_text_one q py_fields compile_ab match_ab)
  have ah: "apply_handler py two_patterns (Tuple2 ''first'' [VStr ''abc'', VMatch ''^a'' ''a''])
      [VStr ''abc''] [] =
      Inr (VList [VStr ''first'', VList [VStr ''abc'', VMatch ''^a'' ''a''], VList []])"
    by (simp add: apply_handler_def delegator_plain q join_def f RegexDispatcher_apply_handler_def
        py_fields echo_def lift_def)
  have "fst (dispatch py two_patterns [VStr ''abc''] []) =
       Inr (VList [VStr ''first'', VList [VStr ''abc'', VMatch ''^a'' ''a''], VList []])"
    using registration_order_tie_break [OF fresh r1 r2 c1 c2 p] by (simp add: ah)
  with fresh r1 r2 c1 c2 p show ?thesis by simp
qed

lemma delegates_cache_irrelevant [simp]:
  "delegates (d\<lparr>prepare_calls := n\<rparr>) name = delegates d name"
  "delegates (d\<lparr>cached_dispatch_data := c\<rparr>) name = delegates d name"
  "delegates (d\<lparr>registry := r\<rparr>) name = delegates d name"
  by (simp_all add: delegates_def)

lemma first_dispatch_prepares:
  assumes "cls d = RegexDispatcher" and "cached_dispatch_data d = None"
    and "compile_all rt (registry d) = Inr compiled"
    and "\<not> delegates d ''dispatch''" and "\<not> delegates d ''gen_dispatch''"
    and "\<not> delegates d ''gen_methods''" and "\<not> delegates d ''prepare''"
    and "\<not> delegates d ''get_text''"
  shows "snd (dispatch rt d [tok] []) =
     d\<lparr>prepare_calls := Suc (prepare_calls d),
        cached_dispatch_data := Some (Compiled compiled)\<rparr>"
proof -
  have "get_text d [tok] [] = Inr tok"
    using assms(8) by (rule get_text_one)
  with assms(1,2,6,7) have "gen_methods rt d [tok] [] =
      Inr (yield_from (match_each rt (inst d) tok compiled) (try_generic d),
           d\<lparr>prepare_calls := Suc (prepare_calls d),
              cached_dispatch_data := Some (Compiled compiled)\<rparr>)"
    using assms(3) by (rule RegexDispatcher_gen_methods_fresh) simp
  with assms(4,5) show ?thesis by (rule dispatch_state)
qed

lemma failing_dispatch_prepares_again:
  assumes "cls d = RegexDispatcher" and "cached_dispatch_data d = None"
    and "compile_all rt (registry d) = Inl TypeError"
    and "\<not> delegates d ''dispatch''" and "\<not> delegates d ''gen_dispatch''"
    and "\<not> delegates d ''gen_methods''" and "\<not> delegates d ''prepare''"
    and "\<not> delegates d ''get_text''"
  shows "snd (dispatch rt d [tok] []) = d\<lparr>prepare_calls := Suc (prepare_calls d)\<rparr>"
proof -
  have "get_text d [tok] [] = Inr tok"
    using assms(8) by (rule get_text_one)
  with assms(1,2,6,7) have "gen_methods rt d [tok] [] =
      Inr (Gen [] (Some (Raise TypeError)), d\<lparr>prepare_calls := Suc (prepare_calls d)\<rparr>)"
    using assms(3) by (rule RegexDispatcher_gen_methods_failing)
  with assms(4,5) show ?thesis by (rule dispatch_state)
qed

lemma gen_methods_other_classes:
  "cls d \<noteq> RegexDispatcher \<Longrightarrow> gen_methods rt d args kwargs = Inr (g, d') \<Longrightarrow> d' = d"
  by (auto simp: gen_methods_def delegator_def split: if_splits dispatcher_class.splits)

lemma perform_other_classes:
  assumes "cls d \<noteq> RegexDispatcher" and "\<not> is_DeleteCache operation"
  shows "cls (perform rt d operation) = cls d \<and>
         prepare_calls (perform rt d operation) = prepare_calls d"
proof (cases operation)
  case (DispatchCall args kwargs)
  with assms show ?thesis
    by (auto simp: dispatch_def gen_dispatch_def delegator_def Let_def
        split: sum.splits list.splits option.splits if_splits dest: gen_methods_other_classes)
next
  case (GenDispatchCall args kwargs)
  with assms show ?thesis
    by (auto simp: gen_dispatch_def delegator_def Let_def
        split: sum.splits if_splits dest: gen_methods_other_classes)
next
  case (RegisterCall name args kwargs)
  with assms show ?thesis
    by (auto simp: register_def delegator_def split: sum.splits if_splits)
next
  case DeleteCache
  with assms show ?thesis by simp
qed

lemma perform_all_other_classes:
  assumes "cls d \<noteq> RegexDispatcher"
    and "list_all (\<lambda>operation. \<not> is_DeleteCache operation) ops"
  shows "prepare_calls (perform_all rt d ops) = prepare_calls d"
  using assms unfolding perform_all_def
proof (induction ops arbitrary: d)
  case Nil
  then show ?case by simp
next
  case (Cons operation ops)
  from Cons.prems have step: "cls (perform rt d operation) \<noteq> RegexDispatcher"
    "prepare_calls (perform rt d operation) = prepare_calls d"
    using perform_other_classes [of d operation rt] by simp_all
  from Cons.IH [OF step(1)] Cons.prems(2) step(2) show ?case by simp
qed

text \<open>
  C8, as the code has it. Over any sequence of dispatch calls and registrations in which
  the owner does not delete the cached attribute: once the prepared data is cached it stays
  the cached value and \<^verbatim>\<open>prepare\<close> is not run again; a RegexDispatcher whose
  \<^verbatim>\<open>prepare\<close> succeeds runs it exactly once, at the first dispatch call, whatever
  follows; a Dispatcher or a TypeDispatcher never runs \<^verbatim>\<open>prepare\<close> for a dispatch call.
  (A \<^verbatim>\<open>prepare\<close> that raises caches nothing, so the next dispatch call runs it again.)
\<close>

theorem prepared_data_computed_once:
  assumes "list_all (\<lambda>operation. \<not> is_DeleteCache operation) ops"
  shows "(cached_dispatch_data d = Some data \<longrightarrow>
            cached_dispatch_data (perform_all rt d ops) = Some data
          \<and> prepare_calls (perform_all rt d ops) = prepare_calls d)
       \<and> (cls d = RegexDispatcher \<and> cached_dispatch_data d = None
          \<and> compile_all rt (registry d) = Inr compiled
          \<and> \<not> delegates d ''dispatch'' \<and> \<not> delegates d ''gen_dispatch''
          \<and> \<not> delegates d ''gen_methods'' \<and> \<not> delegates d ''prepare''
          \<and> \<not> delegates d ''get_text'' \<longrightarrow>
            cached_dispatch_data (perform_all rt d (DispatchCall [tok] [] # ops)) =
              Some (Compiled compiled)
          \<and> prepare_calls (perform_all rt d (DispatchCall [tok] [] # ops)) =
              Suc (prepare_calls d))
       \<and> (cls d \<noteq> RegexDispatcher \<longrightarrow>
            prepare_calls (perform_all rt d ops) = prepare_calls d)"
proof (intro conjI impI)
  assume "cached_dispatch_data d = Some data"
  then show "cached_dispatch_data (perform_all rt d ops) = Some data"
    and "prepare_calls (perform_all rt d ops) = prepare_calls d"
    using assms perform_all_cached by blast+
next
  assume "cls d \<noteq> RegexDispatcher"
  then show "prepare_calls (perform_all rt d ops) = prepare_calls d"
    using assms by (rule perform_all_other_classes)
next
  assume a: "cls d = RegexDispatcher \<and> cached_dispatch_data d = None
          \<and> compile_all rt (registry d) = Inr compiled
          \<and> \<not> delegates d ''dispatch'' \<and> \<not> delegates d ''gen_dispatch''
          \<and> \<not> delegates d ''gen_methods'' \<and> \<not> delegates d ''prepare''
          \<and> \<not> delegates d ''get_text''"
  define d1 where "d1 = d\<lparr>prepare_calls := Suc (prepare_calls d),
        cached_dispatch_data := Some (Compiled compiled)\<rparr>"
  have first: "perform rt d (DispatchCall [tok] []) = d1"
    using a by (simp add: first_dispatch_prepares d1_def)
  have rest: "cached_dispatch_data (perform_all rt d1 ops) = Some (Compiled compiled)
      \<and> prepare_calls (perform_all rt d1 ops) = prepare_calls d1"
    using assms by (intro perform_all_cached) (simp_all add: d1_def)
  have unfold: "perform_all rt d (DispatchCall [tok] [] # ops) = perform_all rt d1 ops"
    using first by (simp add: perform_all_def)
  show "cached_dispatch_data (perform_all rt d (DispatchCall [tok] [] # ops)) =
              Some (Compiled compiled)"
    and "prepare_calls (perform_all rt d (DispatchCall [tok] [] # ops)) = Suc (prepare_calls d)"
    using rest unfold by (simp_all add: d1_def)
qed


lemma two_patterns_compiled:
  "compile_all py (registry two_patterns) =
     Inr [(VPattern ''^a'', ''first''), (VPattern ''^ab'', ''second'')]"
  by (simp add: two_patterns_def registered_fields py_fields compile_a compile_ab)


theorem prepared_data_computed_once_witness:
  "list_all (\<lambda>operation. \<not> is_DeleteCache operation)
     [DispatchCall [VStr ''abc''] [], RegisterCall ''second'' [VStr ''^abc''] [],
      GenDispatchCall [VStr ''ab''] []]
   \<and> cached_dispatch_data two_patterns_prepared =
       Some (Compiled [(VPattern ''^a'', ''first''), (VPattern ''^ab'', ''second'')])
   \<and> cached_dispatch_data (perform_all py two_patterns_prepared
        [DispatchCall [VStr ''abc''] [], RegisterCall ''second'' [VStr ''^abc''] [],
         GenDispatchCall [VStr ''ab''] []]) =
       Some (Compiled [(VPattern ''^a'', ''first''), (VPattern ''^ab'', ''second'')])
   \<and> prepare_calls (perform_all py two_patterns_prepared
        [DispatchCall [VStr ''abc''] [], RegisterCall ''second'' [VStr ''^abc''] [],
         GenDispatchCall [VStr ''ab''] []]) = 1
   \<and> cls two_patterns = RegexDispatcher \<and> cached_dispatch_data two_patterns = None
   \<and> compile_all py (registry two_patterns) =
       Inr [(VPattern ''^a'', ''first''), (VPattern ''^ab'', ''second'')]
   \<and> \<not> delegates two_patterns ''dispatch'' \<and> \<not> delegates two_patterns ''gen_dispatch''
   \<and> \<not> delegates two_patterns ''gen_methods'' \<and> \<not> delegates two_patterns ''prepare''
   \<and> \<not> delegates two_patterns ''get_text''
   \<and> prepare_calls two_patterns = 0
   \<and> prepare_calls (perform_all py two_patterns
        [DispatchCall [VStr ''b''] [], DispatchCall [VStr ''abc''] [],
         RegisterCall ''second'' [VStr ''^abc''] [], GenDispatchCall [VStr ''ab''] []]) = 1
   \<and> cls keyed_1_2 \<noteq> RegexDispatcher \<and> prepare_calls keyed_1_2 = 0
   \<and> prepare_calls (perform_all py keyed_1_2
        [DispatchCall [VStr ''abc''] [], RegisterCall ''second'' [VStr ''^abc''] [],
         GenDispatchCall [VStr ''ab''] []]) = 0"
proof -
  let ?ops = "[DispatchCall [VStr ''abc''] [], RegisterCall ''second'' [VStr ''^abc''] [],
      GenDispatchCall [VStr ''ab''] []]"
  let ?data = "[(VPattern ''^a'', ''first''), (VPattern ''^ab'', ''second'')]"
  have ops: "list_all (\<lambda>operation. \<not> is_DeleteCache operation) ?ops" by simp
  have cached: "cached_dispatch_data two_patterns_prepared = Some (Compiled ?data)"
    "prepare_calls two_patterns_prepared = 1"
    by (simp_all add: two_patterns_prepared_def)
  have fresh: "cls two_patterns = RegexDispatcher" "cached_dispatch_data two_patterns = None"
    "prepare_calls two_patterns = 0"
    by (simp_all add: two_patterns_def registered_fields)
  have p: "\<not> delegates two_patterns ''dispatch''" "\<not> delegates two_patterns ''gen_dispatch''"
    "\<not> delegates two_patterns ''gen_methods''" "\<not> delegates two_patterns ''prepare''"
    "\<not> delegates two_patterns ''get_text''"
    unfolding two_patterns_def by (rule two_handlers_plain)+
  have other: "cls keyed_1_2 \<noteq> RegexDispatcher" "prepare_calls keyed_1_2 = 0"
    by (simp_all add: keyed_1_2_def registered_fields)
  note a = prepared_data_computed_once [OF ops, of two_patterns_prepared "Compiled ?data" py]
  note b = prepared_data_computed_once [OF ops, of two_patterns _ py ?data "VStr ''b''"]
  note c = prepared_data_computed_once [OF ops, of keyed_1_2 _ py]
  from a cached have a': "cached_dispatch_data (perform_all py two_patterns_prepared ?ops) =
       Some (Compiled ?data)" "prepare_calls (perform_all py two_patterns_prepared ?ops) = 1"
    by simp_all
  from b fresh p two_patterns_compiled
  have b': "prepare_calls (perform_all py two_patterns (DispatchCall [VStr ''b''] [] # ?ops)) = 1"
    by simp
  from c other have c': "prepare_calls (perform_all py keyed_1_2 ?ops) = 0"
    by simp
  from ops cached a' fresh two_patterns_compiled p b' other c' show ?thesis by simp
qed

lemma missing_pattern_plain:
  "\<not> delegates missing_pattern ''dispatch''" "\<not> delegates missing_pattern ''gen_dispatch''"
  "\<not> delegates missing_pattern ''gen_methods''" "\<not> delegates missing_pattern ''prepare''"
  "\<not> delegates missing_pattern ''get_text''"
  by (simp_all add: missing_pattern_def registered_plain)

theorem failing_prepare_runs_again_counterexample:
  "prepare_calls missing_pattern = 0
   \<and> prepare_calls (perform_all py missing_pattern
        [DispatchCall [VStr ''abc''] [], DispatchCall [VStr ''abc''] []]) = 2"
proof -
  have f: "cls missing_pattern = RegexDispatcher" "cached_dispatch_data missing_pattern = None"
    "compile_all py (registry missing_pattern) = Inl TypeError"
    "prepare_calls missing_pattern = 0"
    by (simp_all add: missing_pattern_def registered_fields py_fields compile_missing)
  have one: "snd (dispatch py missing_pattern [VStr ''abc''] []) =
      missing_pattern\<lparr>prepare_calls := Suc 0\<rparr>"
    using failing_dispatch_prepares_again [OF f(1-3) missing_pattern_plain, of "VStr ''abc''"]
    by (simp add: f)
  have two: "snd (dispatch py (missing_pattern\<lparr>prepare_calls := Suc 0\<rparr>) [VStr ''abc''] []) =
      missing_pattern\<lparr>prepare_calls := Suc (Suc 0)\<rparr>"
    using failing_dispatch_prepares_again
      [of "missing_pattern\<lparr>prepare_calls := Suc 0\<rparr>" py "VStr ''abc''"]
    by (simp add: f missing_pattern_plain)
  show ?thesis
    by (simp add: perform_all_def one two f)
qed

section \<open>Registering after preparation\<close>




section \<open>The generic handler of a RegexDispatcher\<close>

lemma pattern_and_generic_plain:
  "\<not> delegates pattern_and_generic ''dispatch''"
  "\<not> delegates pattern_and_generic ''gen_dispatch''"
  "\<not> delegates pattern_and_generic ''gen_methods''"
  "\<not> delegates pattern_and_generic ''prepare''"
  "\<not> delegates pattern_and_generic ''get_text''"
  "\<not> delegates pattern_and_generic ''apply_handler''"
  by (simp_all add: pattern_and_generic_def registered_plain)

lemma pattern_and_generic_methods:
  "gen_methods py pattern_and_generic [VStr ''abc''] [] =
     Inr (Gen [Tuple2 ''first'' [VStr ''abc'', VMatch ''^a'' ''a''], Bare ''fallback''] None,
          pattern_and_generic_prepared)"
proof -
  have f: "cls pattern_and_generic = RegexDispatcher"
    "cached_dispatch_data pattern_and_generic = None"
    "prepare_calls pattern_and_generic = 0"
    "inst pattern_and_generic =
       Some (map_of [(''first'', ''first''), (''generic_handler'', ''fallback'')])"
    "compile_all py (registry pattern_and_generic) = Inr [(VPattern ''^a'', ''first'')]"
    by (simp_all add: pattern_and_generic_def registered_fields py_fields compile_a)
  have t: "get_text pattern_and_generic [VStr ''abc''] [] = Inr (VStr ''abc'')"
    using pattern_and_generic_plain(5) by (rule get_text_one)
  have "gen_methods py pattern_and_generic [VStr ''abc''] [] =
      Inr (yield_from (match_each py (inst pattern_and_generic) (VStr ''abc'')
                         [(VPattern ''^a'', ''first'')])
             (try_generic pattern_and_generic), pattern_and_generic_prepared)"
    using f(1,2) pattern_and_generic_plain(3,4) t f(5)
    by (rule RegexDispatcher_gen_methods_fresh) (simp add: pattern_and_generic_prepared_def f)
  then show ?thesis
    by (simp add: f py_fields match_a getattr_def yield_from_def gen_cons_def try_generic_def)
qed

text \<open>
  C7. With \<^verbatim>\<open>first\<close> registered for \<^verbatim>\<open>^a\<close> and an owner that has a
  \<^verbatim>\<open>generic_handler\<close>, the candidates of \<^verbatim>\<open>RegexDispatcher.gen_methods\<close> for the text
  \<^verbatim>\<open>abc\<close> are the matching handler and then the generic handler as well, and
  \<^verbatim>\<open>gen_dispatch\<close> applies both.
\<close>

theorem generic_handler_yielded_after_match:
  "gen_methods py pattern_and_generic [VStr ''abc''] [] =
     Inr (Gen [Tuple2 ''first'' [VStr ''abc'', VMatch ''^a'' ''a''], Bare ''fallback''] None,
          pattern_and_generic_prepared)
   \<and> gen_dispatch py pattern_and_generic [VStr ''abc''] [] =
     Inr (Gen [VList [VStr ''first'', VList [VStr ''abc'', VMatch ''^a'' ''a''], VList []],
               VList [VStr ''fallback'', VList [VStr ''abc''], VList []]] None,
          pattern_and_generic_prepared)"
proof -
  have p: "\<not> delegates pattern_and_generic_prepared ''apply_handler''"
    "cls pattern_and_generic_prepared = RegexDispatcher"
    using pattern_and_generic_plain(6)
    by (simp_all add: pattern_and_generic_prepared_def pattern_and_generic_def registered_fields)
  have "gen_dispatch py pattern_and_generic [VStr ''abc''] [] =
     Inr (Gen [VList [VStr ''first'', VList [VStr ''abc'', VMatch ''^a'' ''a''], VList []],
               VList [VStr ''fallback'', VList [VStr ''abc''], VList []]] None,
          pattern_and_generic_prepared)"
    using pattern_and_generic_plain(2)
    by (simp add: gen_dispatch_def delegator_plain pattern_and_generic_methods apply_handler_def p
        join_def RegexDispatcher_apply_handler_def py_fields echo_def lift_def gen_cons_def)
  with pattern_and_generic_methods show ?thesis by simp
qed

section \<open>The trace of gen_dispatch\<close>

lemma apply_each_all:
  "map (\<lambda>c. apply_handler rt d c args kwargs) ms = map Inr results \<Longrightarrow>
   apply_each rt d args kwargs ms after = Gen results after"
proof (induction ms arbitrary: results)
  case Nil
  then show ?case by simp
next
  case (Cons m ms)
  then obtain r rs where "results = r # rs" by (cases results) auto
  with Cons show ?case by (simp add: gen_cons_def)
qed

lemma apply_each_stops:
  "map (\<lambda>c. apply_handler rt d c args kwargs) before = map Inr results \<Longrightarrow>
   apply_handler rt d m args kwargs = Inl s \<Longrightarrow>
   apply_each rt d args kwargs (before @ m # rest) after = Gen results (Some s)"
proof (induction before arbitrary: results)
  case Nil
  then show ?case by simp
next
  case (Cons b before)
  then obtain r rs where "results = r # rs" by (cases results) auto
  with Cons show ?case by (simp add: gen_cons_def)
qed

lemma gen_dispatch_trace:
  assumes "\<not> delegates d ''gen_dispatch''"
    and "gen_methods rt d args kwargs = Inr (methods, d')"
  shows "gen_dispatch rt d args kwargs =
     Inr (apply_each rt d' args kwargs (yields methods)
            (case ending methods of
               Some s \<Rightarrow> Some s
             | None \<Rightarrow> if yields methods \<noteq> [] then None else Some (Raise DispatchError)), d')"
  using assms by (simp add: gen_dispatch_def delegator_plain Let_def)

text \<open>
  C4, as the code has it. \<^verbatim>\<open>gen_dispatch\<close> is a generator function, so a call for which
  \<^verbatim>\<open>gen_methods\<close> has no candidate (it ends without a yield, normally or with its own
  DispatchError) raises nothing: it returns the generator object. The DispatchError is raised
  when the consumer asks for the first result, and nothing has been yielded before it.
\<close>

theorem zero_candidates_raise_on_first_next:
  assumes "\<not> delegates d ''gen_dispatch''"
    and "gen_methods rt d args kwargs = Inr (Gen [] e, d')"
    and "e = None \<or> e = Some (Raise DispatchError)"
  shows "gen_dispatch rt d args kwargs = Inr (Gen [] (Some (Raise DispatchError)), d')
       \<and> first_next (Gen [] (Some (Raise DispatchError)) :: pyval gen) =
           Inl (Some (Raise DispatchError))"
  using gen_dispatch_trace [OF assms(1,2)] assms(3)
  by (auto simp: first_next_def)

lemma one_handler_no_candidates:
  "gen_methods py one_handler [VInt 5] [] = Inr (Gen [] (Some (Raise DispatchError)), one_handler)"
  by (simp add: gen_methods_def delegator_plain one_handler_def one_handler_plain
      registered_fields Dispatcher_gen_methods_def getattr_def yield_from_def)

lemma no_patterns_no_candidates:
  "gen_methods py no_patterns [VStr ''abc''] [] =
     Inr (Gen [] None,
          no_patterns\<lparr>prepare_calls := Suc 0, cached_dispatch_data := Some (Compiled [])\<rparr>)"
proof -
  have f: "cls no_patterns = RegexDispatcher" "cached_dispatch_data no_patterns = None"
    "prepare_calls no_patterns = 0" "compile_all py (registry no_patterns) = Inr []"
    "inst no_patterns = Some (map_of [(''first'', ''first''), (''second'', ''second'')])"
    by (simp_all add: no_patterns_def registered_fields)
  have p: "\<not> delegates no_patterns ''gen_methods''" "\<not> delegates no_patterns ''prepare''"
    "\<not> delegates no_patterns ''get_text''"
    unfolding no_patterns_def by (rule two_handlers_plain)+
  have "gen_methods py no_patterns [VStr ''abc''] [] =
      Inr (yield_from (match_each py (inst no_patterns) (VStr ''abc'') []) (try_generic no_patterns),
           no_patterns\<lparr>prepare_calls := Suc 0, cached_dispatch_data := Some (Compiled [])\<rparr>)"
    using f(1,2) p(1,2) get_text_one [OF p(3)] f(4)
    by (rule RegexDispatcher_gen_methods_fresh) (simp add: f)
  then show ?thesis
    by (simp add: yield_from_def try_generic_def f getattr_def)
qed

theorem zero_candidates_raise_on_first_next_witness:
  "\<not> delegates one_handler ''gen_dispatch''
   \<and> gen_methods py one_handler [VInt 5] [] =
       Inr (Gen [] (Some (Raise DispatchError)), one_handler)
   \<and> gen_dispatch py one_handler [VInt 5] [] =
       Inr (Gen [] (Some (Raise DispatchError)), one_handler)
   \<and> \<not> delegates no_patterns ''gen_dispatch''
   \<and> gen_methods py no_patterns [VStr ''abc''] [] =
       Inr (Gen [] None,
            no_patterns\<lparr>prepare_calls := Suc 0, cached_dispatch_data := Some (Compiled [])\<rparr>)
   \<and> gen_dispatch py no_patterns [VStr ''abc''] [] =
       Inr (Gen [] (Some (Raise DispatchError)),
            no_patterns\<lparr>prepare_calls := Suc 0, cached_dispatch_data := Some (Compiled [])\<rparr>)
   \<and> first_next (Gen [] (Some (Raise DispatchError)) :: pyval gen) =
       Inl (Some (Raise DispatchError))"
proof -
  have p1: "\<not> delegates one_handler ''gen_dispatch''"
    unfolding one_handler_def by (rule one_handler_plain)
  have p2: "\<not> delegates no_patterns ''gen_dispatch''"
    unfolding no_patterns_def by (rule two_handlers_plain)
  show ?thesis
    using zero_candidates_raise_on_first_next [OF p1 one_handler_no_candidates]
      zero_candidates_raise_on_first_next [OF p2 no_patterns_no_candidates]
      p1 p2 one_handler_no_candidates no_patterns_no_candidates
    by simp
qed

theorem gen_dispatch_call_returns_generator_counterexample:
  "gen_methods py one_handler [VInt 5] [] = Inr (Gen [] (Some (Raise DispatchError)), one_handler)
   \<and> gen_dispatch py one_handler [VInt 5] [] \<noteq> Inl (Raise DispatchError)
   \<and> gen_dispatch py one_handler [VInt 5] [] =
       Inr (Gen [] (Some (Raise DispatchError)), one_handler)"
proof -
  have p1: "\<not> delegates one_handler ''gen_dispatch''"
    unfolding one_handler_def by (rule one_handler_plain)
  show ?thesis
    using gen_dispatch_trace [OF p1 one_handler_no_candidates] one_handler_no_candidates
    by simp
qed

text \<open>
  C9, as the code has it. A DispatchInterrupt raised by a handler during multi-mode
  dispatch is not absorbed at the \<^verbatim>\<open>gen_dispatch\<close> boundary: it ends the generator of
  \<^verbatim>\<open>gen_dispatch\<close> after the results of the candidates before it, no further candidate
  being tried, and reaches the consumer as DispatchInterrupt. The other engine errors,
  DispatchError, ImplementationError and the no-clobber error, do the same, whether they
  come out of \<^verbatim>\<open>apply_handler\<close> or out of \<^verbatim>\<open>gen_methods\<close>: each reaches the consumer
  as the exception it is.
\<close>

theorem engine_errors_propagate_unmodified:
  assumes "\<not> delegates d ''gen_dispatch''"
    and "gen_methods rt d args kwargs = Inr (methods, d')"
    and "e = DispatchInterrupt \<or> e = DispatchError \<or> e = ImplementationError
         \<or> e = KeyClobberError"
  shows "(yields methods = before @ m # rest
          \<and> map (\<lambda>c. apply_handler rt d' c args kwargs) before = map Inr results
          \<and> apply_handler rt d' m args kwargs = Inl (Raise e) \<longrightarrow>
            gen_dispatch rt d args kwargs = Inr (Gen results (Some (Raise e)), d'))
       \<and> (map (\<lambda>c. apply_handler rt d' c args kwargs) (yields methods) = map Inr results
          \<and> ending methods = Some (Raise e) \<longrightarrow>
            gen_dispatch rt d args kwargs = Inr (Gen results (Some (Raise e)), d'))"
  using gen_dispatch_trace [OF assms(1,2)]
  by (auto simp: apply_each_stops apply_each_all)

lemma interrupted_plain:
  "\<not> delegates interrupted ''gen_dispatch''" "\<not> delegates interrupted ''gen_methods''"
  "\<not> delegates interrupted ''apply_handler''"
  by (simp_all add: interrupted_def registered_plain)

lemma interrupted_methods:
  "gen_methods py interrupted [] [] =
     Inr (Gen [Tuple3 ''handler'' [] [], Tuple3 ''interrupt'' [] [], Tuple3 ''handler'' [] []] None,
          interrupted)"
  using interrupted_plain(2)
  by (simp add: gen_methods_def delegator_plain)
    (simp add: interrupted_def registered_fields Dispatcher_gen_methods_def getattr_def
      gen_cons_def)

lemma interrupted_apply:
  "apply_handler py interrupted (Tuple3 ''handler'' [] []) [] [] =
     Inr (VList [VStr ''handler'', VList [], VList []])"
  "apply_handler py interrupted (Tuple3 ''interrupt'' [] []) [] [] = Inl (Raise DispatchInterrupt)"
  using interrupted_plain(3)
  by (simp_all add: apply_handler_def delegator_plain join_def)
    (simp_all add: interrupted_def registered_fields Dispatcher_apply_handler_def
      NoClobberDict_update_def dupes_def dict_update_def py_fields echo_def lift_def)

lemma generic_only_plain:
  "\<not> delegates generic_only ''gen_dispatch''" "\<not> delegates generic_only ''gen_methods''"
  "\<not> delegates generic_only ''apply_handler''"
  by (simp_all add: generic_only_def new_dispatcher_plain)

lemma generic_only_methods:
  "gen_methods py generic_only [] [] =
     Inr (Gen [Tuple3 ''fallback'' [] []] (Some (Raise DispatchError)), generic_only)"
  using generic_only_plain(2)
  by (simp add: gen_methods_def delegator_plain)
    (simp add: generic_only_def new_dispatcher_def Dispatcher_gen_methods_def getattr_def
      yield_from_def)

lemma generic_only_apply:
  "apply_handler py generic_only (Tuple3 ''fallback'' [] []) [] [] =
     Inr (VList [VStr ''fallback'', VList [], VList []])"
  using generic_only_plain(3)
  by (simp add: apply_handler_def delegator_plain join_def)
    (simp add: generic_only_def new_dispatcher_def Dispatcher_apply_handler_def
      NoClobberDict_update_def dupes_def dict_update_def py_fields echo_def lift_def)

lemma keyed_x1_methods:
  "gen_methods py keyed_x1 [] [(''x'', VInt 5)] =
     Inr (Gen [Tuple3 ''handler'' [] [(''x'', VInt 1)]] None, keyed_x1)"
proof -
  have "\<not> delegates keyed_x1 ''gen_methods''"
    unfolding keyed_x1_def by (rule one_handler_plain)
  then show ?thesis
    by (simp add: gen_methods_def delegator_plain)
      (simp add: keyed_x1_def registered_fields Dispatcher_gen_methods_def getattr_def
        gen_cons_def)
qed

lemma keyed_x1_apply:
  "apply_handler py keyed_x1 (Tuple3 ''handler'' [] [(''x'', VInt 1)]) [] [(''x'', VInt 5)] =
     Inl (Raise KeyClobberError)"
proof -
  have "cls keyed_x1 = Dispatcher" and "\<not> delegates keyed_x1 ''apply_handler''"
    unfolding keyed_x1_def by (simp add: registered_fields, rule one_handler_plain)
  then show ?thesis
    by (simp add: Dispatcher_apply_Tuple3 dupes_def)
qed

theorem engine_errors_propagate_unmodified_witness:
  "\<not> delegates interrupted ''gen_dispatch''
   \<and> gen_methods py interrupted [] [] =
       Inr (Gen [Tuple3 ''handler'' [] [], Tuple3 ''interrupt'' [] [], Tuple3 ''handler'' [] []]
              None, interrupted)
   \<and> apply_handler py interrupted (Tuple3 ''handler'' [] []) [] [] =
       Inr (VList [VStr ''handler'', VList [], VList []])
   \<and> apply_handler py interrupted (Tuple3 ''interrupt'' [] []) [] [] =
       Inl (Raise DispatchInterrupt)
   \<and> gen_dispatch py interrupted [] [] =
       Inr (Gen [VList [VStr ''handler'', VList [], VList []]] (Some (Raise DispatchInterrupt)),
            interrupted)
   \<and> \<not> delegates keyed_x1 ''gen_dispatch''
   \<and> gen_methods py keyed_x1 [] [(''x'', VInt 5)] =
       Inr (Gen [Tuple3 ''handler'' [] [(''x'', VInt 1)]] None, keyed_x1)
   \<and> apply_handler py keyed_x1 (Tuple3 ''handler'' [] [(''x'', VInt 1)]) [] [(''x'', VInt 5)] =
       Inl (Raise KeyClobberError)
   \<and> gen_dispatch py keyed_x1 [] [(''x'', VInt 5)] =
       Inr (Gen [] (Some (Raise KeyClobberError)), keyed_x1)
   \<and> \<not> delegates generic_only ''gen_dispatch''
   \<and> gen_methods py generic_only [] [] =
       Inr (Gen [Tuple3 ''fallback'' [] []] (Some (Raise DispatchError)), generic_only)
   \<and> apply_handler py generic_only (Tuple3 ''fallback'' [] []) [] [] =
       Inr (VList [VStr ''fallback'', VList [], VList []])
   \<and> gen_dispatch py generic_only [] [] =
       Inr (Gen [VList [VStr ''fallback'', VList [], VList []]] (Some (Raise DispatchError)),
            generic_only)"
proof -
  have px: "\<not> delegates keyed_x1 ''gen_dispatch''"
    unfolding keyed_x1_def by (rule one_handler_plain)
  have a: "gen_dispatch py interrupted [] [] =
       Inr (Gen [VList [VStr ''handler'', VList [], VList []]] (Some (Raise DispatchInterrupt)),
            interrupted)"
    using engine_errors_propagate_unmodified [OF interrupted_plain(1) interrupted_methods,
        where e = DispatchInterrupt
          and before = "[Tuple3 ''handler'' [] []]" and m = "Tuple3 ''interrupt'' [] []"
          and rest = "[Tuple3 ''handler'' [] []]"
          and results = "[VList [VStr ''handler'', VList [], VList []]]"]
    by (simp add: interrupted_apply)
  have b: "gen_dispatch py keyed_x1 [] [(''x'', VInt 5)] =
       Inr (Gen [] (Some (Raise KeyClobberError)), keyed_x1)"
    using engine_errors_propagate_unmodified [OF px keyed_x1_methods,
        where e = KeyClobberError and before = "[]"
          and m = "Tuple3 ''handler'' [] [(''x'', VInt 1)]" and rest = "[]" and results = "[]"]
    by (simp add: keyed_x1_apply)
  have c: "gen_dispatch py generic_only [] [] =
       Inr (Gen [VList [VStr ''fallback'', VList [], VList []]] (Some (Raise DispatchError)),
            generic_only)"
    using engine_errors_propagate_unmodified [OF generic_only_plain(1) generic_only_methods,
        where e = DispatchError
          and results = "[VList [VStr ''fallback'', VList [], VList []]]"]
    by (simp add: generic_only_apply)
  from a b c px interrupted_plain(1) interrupted_methods interrupted_apply keyed_x1_methods
    keyed_x1_apply generic_only_plain(1) generic_only_methods generic_only_apply
  show ?thesis by simp
qed

theorem DispatchInterrupt_surfaces_counterexample:
  "gen_dispatch py interrupted [] [] =
       Inr (Gen [VList [VStr ''handler'', VList [], VList []]] (Some (Raise DispatchInterrupt)),
            interrupted)"
  using gen_dispatch_trace [OF interrupted_plain(1) interrupted_methods]
  by (simp add: interrupted_apply gen_cons_def)

section \<open>The walk of the TypeDispatcher\<close>

lemma dedupe_loop_set: "set (dedupe_loop seen xs) = set xs - seen"
  by (induction xs arbitrary: seen) auto

lemma dedupe_loop_distinct: "distinct (dedupe_loop seen xs)"
  by (induction xs arbitrary: seen) (auto simp: dedupe_loop_set)




text \<open>
  C2. For every dispatch token, the candidates of \<^verbatim>\<open>TypeDispatcher.gen_methods\<close> are
  pairwise different: a handler the walk reaches through several ancestor types, runtime
  categories, capability categories or generic names is yielded once, as \<^verbatim>\<open>dedupe\<close>
  wraps the whole generator.
\<close>

theorem yields_each_handler_once:
  assumes "cls d = TypeDispatcher" and "gen_methods rt d args kwargs = Inr (methods, d')"
  shows "distinct (yields methods)"
  using assms
  by (auto simp: gen_methods_def delegator_def dedupe_def dedupe_loop_distinct split: if_splits)

lemma key_methods_plain:
  assumes "\<not> delegates d ''gen_method_keys''" and "type_mro rt token = (name, ancestors)"
  shows "key_methods rt d (token # args) kwargs =
     Gen (methods_named d (butlast (name # ancestors))) None"
  using assms by (simp add: key_methods_def gen_method_keys_def delegator_plain iterate_def)



lemma python_fields:
  "type_mro (python minor io ao) = py_type_mro minor"
  "isinstance (python minor io ao) = py_isinstance minor"
  "builtins (python minor io ao) = py_builtins" "types_module (python minor io ao) = py_types"
  "collections_module (python minor io ao) = py_collections minor"
  "interp_types_iter (python minor io ao) = io" "abc_types_iter (python minor io ao) = ao"
  by (simp_all add: python_def)

lemma list_not_interp:
  "py_types name = Some basetype \<Longrightarrow>
   \<exists>c. basetype = PyClass c \<and> \<not> py_isinstance minor (VList xs) c"
  by (auto simp: py_types_def py_isinstance_def split: if_splits)

lemma list_check_interp:
  assumes "\<not> delegates d ''check_basetype''"
  shows "check_each (python minor io ao) d (VList xs) py_types names = Gen [] None"
proof (induction names)
  case Nil
  then show ?case by simp
next
  case (Cons name names)
  have "check_basetype (python minor io ao) d (VList xs) name (py_types name) =
      Inr (Gen [] None)"
  proof (cases "py_types name")
    case None
    then show ?thesis
      by (simp add: check_basetype_def delegator_plain assms)
  next
    case (Some basetype)
    then obtain c where "basetype = PyClass c" and "\<not> py_isinstance minor (VList xs) c"
      using list_not_interp by blast
    with Some show ?thesis
      by (simp add: check_basetype_def delegator_plain assms python_fields)
  qed
  with Cons show ?case by (simp add: iterate_def yield_from_def)
qed

lemma list_isinstance_abc:
  "name \<in> abc_types \<Longrightarrow> py_isinstance minor (VList xs) name = (name \<in> list_abcs)"
  by (auto simp: abc_types_def py_isinstance_def list_abcs_def)

lemma list_abcs_abc_types: "name \<in> list_abcs \<Longrightarrow> name \<in> abc_types"
  by (auto simp: abc_types_def list_abcs_def)

lemma list_check_abc_one:
  assumes "\<not> delegates d ''check_basetype''"
  shows "check_basetype (python minor io ao) d (VList xs) name (py_collections minor name) =
     Inr (Gen (if minor < 10 \<and> name \<in> list_abcs then methods_named d [name, name] else [])
            None)"
proof (cases "minor < 10")
  case old: True
  show ?thesis
  proof (cases "name \<in> abc_types")
    case True
    with old show ?thesis
      by (simp add: check_basetype_def delegator_plain assms python_fields py_collections_def
          list_isinstance_abc)
  next
    case False
    then have "name \<notin> list_abcs" using list_abcs_abc_types by blast
    with False show ?thesis
      by (simp add: check_basetype_def delegator_plain assms py_collections_def)
  qed
next
  case False
  then show ?thesis
    by (simp add: check_basetype_def delegator_plain assms py_collections_def)
qed

lemma list_check_abc:
  assumes "\<not> delegates d ''check_basetype''"
  shows "check_each (python minor io ao) d (VList xs) (py_collections minor) names =
     Gen (concat (map (\<lambda>name. if minor < 10 \<and> name \<in> list_abcs
                               then methods_named d [name, name] else []) names)) None"
  by (induction names) (simp_all add: list_check_abc_one [OF assms] iterate_def yield_from_def)

lemma list_walk:
  assumes "\<not> delegates d ''gen_method_keys''" and "\<not> delegates d ''check_basetype''"
    and "\<not> delegates d ''gen_generic''"
  shows "TypeDispatcher_gen_methods (python minor io ao) d (VList xs # args) kwargs =
     Gen (methods_named d [''list''] @ methods_named d [''list'', ''list'']
          @ concat (map (\<lambda>name. if minor < 10 \<and> name \<in> list_abcs
                                 then methods_named d [name, name] else []) ao)
          @ map Bare (List.map_filter (getattr (inst d)) generic_handler_aliases)) None"
proof -
  have keys: "key_methods (python minor io ao) d (VList xs # args) kwargs =
      Gen (methods_named d [''list'']) None"
    using key_methods_plain
      [OF assms(1), of "python minor io ao" "VList xs" "''list''" "[''object'']"]
    by (simp add: python_fields py_type_mro_def)
  have builtin:
    "check_basetype (python minor io ao) d (VList xs) ''list'' (py_builtins ''list'') =
      Inr (Gen (methods_named d [''list'', ''list'']) None)"
    by (simp add: check_basetype_def delegator_plain assms python_fields py_builtins_def
        py_isinstance_def)
  have generic: "gen_generic d =
      Inr (Gen (map Bare (List.map_filter (getattr (inst d)) generic_handler_aliases)) None)"
    by (simp add: gen_generic_def delegator_plain assms)
  show ?thesis
    by (simp add: TypeDispatcher_gen_methods_def keys python_fields py_type_mro_def builtin
        list_check_interp [OF assms(2)] list_check_abc [OF assms(2)] generic iterate_def Let_def
        yield_from_def)
qed






















lemma catch_all_plain:
  "\<not> delegates catch_all ''gen_methods''"
  "\<not> delegates catch_all ''gen_method_keys''"
  "\<not> delegates catch_all ''check_basetype''"
  "\<not> delegates catch_all ''gen_generic''"
  by (simp_all add: catch_all_def new_dispatcher_plain)

lemma catch_all_named:
  "methods_named catch_all names =
     map Bare (List.map_filter
       (\<lambda>name. if name = ''Iterable'' then Some ''catch_all''
                else if name = ''Sized'' then Some ''catch_all'' else None) names)"
proof -
  have "\<And>name. getattr (inst catch_all) (method_prefix catch_all @ name) =
      (if name = ''Iterable'' then Some ''catch_all''
       else if name = ''Sized'' then Some ''catch_all'' else None)"
    by (simp add: catch_all_def new_dispatcher_def getattr_def)
  then show ?thesis by (simp add: methods_named_def)
qed

lemma catch_all_walk:
  "TypeDispatcher_gen_methods py catch_all [VList [VInt 1, VInt 2]] [] =
     Gen [Bare ''catch_all'', Bare ''catch_all'', Bare ''catch_all'', Bare ''catch_all''] None"
proof -
  have generic: "List.map_filter (getattr (inst catch_all)) generic_handler_aliases = []"
    by (simp add: catch_all_def new_dispatcher_def getattr_def generic_handler_aliases_def
        List.map_filter_simps)
  show ?thesis
    unfolding py_def list_walk [OF catch_all_plain(2,3,4)] generic
    by (simp add: catch_all_named List.map_filter_simps list_abcs_def listed_abc_types_def)
qed

theorem yields_each_handler_once_witness:
  "cls catch_all = TypeDispatcher
   \<and> TypeDispatcher_gen_methods py catch_all [VList [VInt 1, VInt 2]] [] =
       Gen [Bare ''catch_all'', Bare ''catch_all'', Bare ''catch_all'', Bare ''catch_all''] None
   \<and> gen_methods py catch_all [VList [VInt 1, VInt 2]] [] =
       Inr (Gen [Bare ''catch_all''] None, catch_all)
   \<and> distinct (yields (Gen [Bare ''catch_all''] None))"
proof -
  have c: "cls catch_all = TypeDispatcher"
    by (simp add: catch_all_def new_dispatcher_def)
  have g: "gen_methods py catch_all [VList [VInt 1, VInt 2]] [] =
       Inr (Gen [Bare ''catch_all''] None, catch_all)"
    using catch_all_plain(1)
    by (simp add: gen_methods_def delegator_plain c catch_all_walk dedupe_def)
  from yields_each_handler_once [OF c g] c g catch_all_walk show ?thesis by simp
qed

end
